theory Spec2Isabelle
  imports Complex_Main
begin

section \<open>Data model of recommend.py\<close>

text \<open>
  The module works on Spark dataframes. A dataframe is modelled as the list of its rows;
  the order of the list stands for the physical row order, which Spark does not fix, so a
  statement proved for every list holds for every order the engine may choose. Columns are
  taken as non-null.
\<close>

type_synonym timestamp = nat

text \<open>
  A prediction is a Spark float: a number, an infinity or NaN. The numbers are taken as reals;
  no arithmetic is done on them here, only comparisons. \<open>spark_less\<close> is the operator
  \<open><\<close> of Spark SQL, which is also the order of \<open>ORDER BY\<close>: NaN equals itself and is
  larger than every other value. \<open>float_ge\<close> is the comparison \<open>>=\<close> of floats outside
  Spark SQL (IEEE 754, as in Python), which is false as soon as one side is NaN.
\<close>

datatype spark_float = NegInf | Num real | PosInf | NaN

fun spark_less :: "spark_float \<Rightarrow> spark_float \<Rightarrow> bool" where
  "spark_less (Num a) (Num b) = (a < b)"
| "spark_less NaN b = False"
| "spark_less a NaN = True"
| "spark_less PosInf b = False"
| "spark_less a PosInf = True"
| "spark_less a NegInf = False"
| "spark_less NegInf b = True"

fun float_ge :: "spark_float \<Rightarrow> spark_float \<Rightarrow> bool" where
  "float_ge NaN b = False"
| "float_ge a NaN = False"
| "float_ge a b = (\<not> spark_less a b)"

text \<open>Rows of the dataframe \<open>recommendation\<close>: the output of the model.\<close>

record recommendation_row =
  spark_user_id :: nat
  recording_id :: nat
  prediction :: spark_float

text \<open>Rows of the common table expression \<open>ranked_recommendation\<close> (alias \<open>rm\<close>).\<close>

record ranked_row =
  rm_spark_user_id :: nat
  rm_recording_id :: nat
  rm_score :: spark_float
  rm_rank :: int

text \<open>Rows of the views \<open>recording\<close> (alias \<open>r\<close>), \<open>user\<close> (alias \<open>u\<close>) and
  \<open>recording_discovery\<close> (alias \<open>rd\<close>).\<close>

record recording_row =
  r_recording_id :: nat
  r_recording_mbid :: string

record user_row =
  u_spark_user_id :: nat
  u_user_id :: nat

record discovery_row =
  rd_user_id :: nat
  rd_recording_mbid :: string
  rd_latest_listened_at :: timestamp

text \<open>The struct collected per recommendation, and a row of the result dataframe.\<close>

record rec_struct =
  recording_mbid :: string
  score :: spark_float
  latest_listened_at :: "string option"

record recs_row =
  user_id :: nat
  recs :: "rec_struct list"

text \<open>
  The Spark session as far as the queries read it: the three temporary views registered by
  \<open>main\<close>, and the engine's \<open>date_format\<close> at the pattern of the query, which the
  module does not define.
\<close>

record spark_session =
  date_format :: "timestamp \<Rightarrow> string"
  recording :: "recording_row list"
  user :: "user_row list"
  recording_discovery :: "discovery_row list"

section \<open>process\_recommendations\<close>

text \<open>
  \<open>row_number() OVER (PARTITION BY spark_user_id ORDER BY prediction DESC)\<close>: each
  partition is ordered by descending prediction (NaN first) and numbered from 1. Rows of equal
  prediction keep the order of the input list.
\<close>

primrec insert_desc :: "recommendation_row \<Rightarrow> recommendation_row list \<Rightarrow> recommendation_row list" where
  "insert_desc x [] = [x]"
| "insert_desc x (y # ys) =
     (if \<not> spark_less (prediction x) (prediction y) then x # y # ys
      else y # insert_desc x ys)"

definition order_by_prediction_desc :: "recommendation_row list \<Rightarrow> recommendation_row list" where
  "order_by_prediction_desc xs = foldr insert_desc xs []"

primrec row_number :: "int \<Rightarrow> recommendation_row list \<Rightarrow> ranked_row list" where
  "row_number k [] = []"
| "row_number k (x # xs) =
     \<lparr>rm_spark_user_id = spark_user_id x, rm_recording_id = recording_id x,
      rm_score = prediction x, rm_rank = k\<rparr> # row_number (k + 1) xs"

definition partition_by :: "nat \<Rightarrow> recommendation_row list \<Rightarrow> recommendation_row list" where
  "partition_by s recommendation = filter (\<lambda>x. spark_user_id x = s) recommendation"

definition ranked_recommendation :: "recommendation_row list \<Rightarrow> ranked_row list" where
  "ranked_recommendation recommendation =
     concat (map (\<lambda>s. row_number 1 (order_by_prediction_desc (partition_by s recommendation)))
                 (remdups (map spark_user_id recommendation)))"

text \<open>
  \<open>array_sort(array, (left, right) -> ...)\<close>: a sort by the comparator, which returns a
  negative number when \<open>left\<close> goes first.
\<close>

definition score_cmp :: "rec_struct \<Rightarrow> rec_struct \<Rightarrow> int" where
  "score_cmp left right =
     (if spark_less (score right) (score left) then - 1
      else if spark_less (score left) (score right) then 1
      else 0)"

primrec array_insert :: "('a \<Rightarrow> 'a \<Rightarrow> int) \<Rightarrow> 'a \<Rightarrow> 'a list \<Rightarrow> 'a list" where
  "array_insert cmp x [] = [x]"
| "array_insert cmp x (y # ys) =
     (if cmp x y \<le> 0 then x # y # ys else y # array_insert cmp x ys)"

definition array_sort :: "('a \<Rightarrow> 'a \<Rightarrow> int) \<Rightarrow> 'a list \<Rightarrow> 'a list" where
  "array_sort cmp xs = foldr (array_insert cmp) xs []"

text \<open>
  The joins of the query, in the order of its \<open>FROM\<close> clause. A joined row is kept as
  the tuple of the rows it was built from; the right side of the left join is \<open>None\<close>
  when no row of \<open>recording_discovery\<close> matches.
\<close>

definition join_recording :: "spark_session \<Rightarrow> ranked_row list \<Rightarrow> (ranked_row \<times> recording_row) list" where
  "join_recording S rms =
     concat (map (\<lambda>rm. map (\<lambda>r. (rm, r))
                          (filter (\<lambda>r. r_recording_id r = rm_recording_id rm) (recording S))) rms)"

definition join_user ::
  "spark_session \<Rightarrow> (ranked_row \<times> recording_row) list \<Rightarrow> (ranked_row \<times> recording_row \<times> user_row) list" where
  "join_user S js =
     concat (map (\<lambda>(rm, r). map (\<lambda>u. (rm, r, u))
                          (filter (\<lambda>u. u_spark_user_id u = rm_spark_user_id rm) (user S))) js)"

definition discovery_matches :: "spark_session \<Rightarrow> nat \<Rightarrow> string \<Rightarrow> discovery_row option list" where
  "discovery_matches S uid mbid =
     (let ms = filter (\<lambda>d. rd_user_id d = uid \<and> rd_recording_mbid d = mbid) (recording_discovery S)
      in if ms = [] then [None] else map Some ms)"

definition left_join_discovery ::
  "spark_session \<Rightarrow> (ranked_row \<times> recording_row \<times> user_row) list
     \<Rightarrow> (ranked_row \<times> recording_row \<times> user_row \<times> discovery_row option) list" where
  "left_join_discovery S js =
     concat (map (\<lambda>(rm, r, u). map (\<lambda>d. (rm, r, u, d))
                          (discovery_matches S (u_user_id u) (r_recording_mbid r))) js)"

type_synonym joined_row = "ranked_row \<times> recording_row \<times> user_row \<times> discovery_row option"

definition joined_user_id :: "joined_row \<Rightarrow> nat" where
  "joined_user_id j = (case j of (rm, r, u, d) \<Rightarrow> u_user_id u)"

definition struct :: "spark_session \<Rightarrow> joined_row \<Rightarrow> rec_struct" where
  "struct S j = (case j of (rm, r, u, d) \<Rightarrow>
     \<lparr>recording_mbid = r_recording_mbid r, score = rm_score rm,
      latest_listened_at = map_option (\<lambda>x. date_format S (rd_latest_listened_at x)) d\<rparr>)"

definition where_rank :: "int \<Rightarrow> joined_row list \<Rightarrow> joined_row list" where
  "where_rank limit js = filter (\<lambda>(rm, r, u, d). rm_rank rm \<le> limit) js"

definition collect_list :: "spark_session \<Rightarrow> nat \<Rightarrow> joined_row list \<Rightarrow> rec_struct list" where
  "collect_list S uid js = map (struct S) (filter (\<lambda>j. joined_user_id j = uid) js)"

definition group_by_user_id :: "spark_session \<Rightarrow> joined_row list \<Rightarrow> recs_row list" where
  "group_by_user_id S js =
     map (\<lambda>uid. \<lparr>user_id = uid, recs = array_sort score_cmp (collect_list S uid js)\<rparr>)
         (remdups (map joined_user_id js))"

definition process_recommendations :: "spark_session \<Rightarrow> recommendation_row list \<Rightarrow> int \<Rightarrow> recs_row list" where
  "process_recommendations S recommendation_df limit =
     group_by_user_id S
       (where_rank limit
         (left_join_discovery S
           (join_user S
             (join_recording S (ranked_recommendation recommendation_df)))))"

section \<open>Errors and the external collaborators\<close>

text \<open>
  Every exception the module raises or lets through is a value; a function that can raise
  returns \<open>error + 'a\<close> with \<open>Inl\<close> for the exception. The string is the message
  given to the exception's constructor.
\<close>

datatype error =
    SparkSessionNotInitializedException
  | PathNotFoundException
  | FileNotFetchedException
  | RecommendationsNotGeneratedException string
  | EmptyDataframeExcpetion string
  | Py4JJavaError
  | Py4JError
  | IndexError
  | TypeError

text \<open>An exception raised by a call ends the caller too: the rest runs on the value only.\<close>

definition and_then :: "error + 'a \<Rightarrow> ('a \<Rightarrow> error + 'b) \<Rightarrow> error + 'b" where
  "and_then r f = (case r of Inl e \<Rightarrow> Inl e | Inr v \<Rightarrow> f v)"

text \<open>Rows of a candidate set dataframe, and of its projection on
  \<open>spark_user_id, recording_id\<close>.\<close>

record candidate_row =
  cs_spark_user_id :: nat
  cs_recording_id :: nat
  cs_user_id :: nat

record candidate_pair =
  cp_spark_user_id :: nat
  cp_recording_id :: nat

text \<open>A row of what \<open>ALSModel.recommendForUserSubset\<close> returns: a user and the array of
  (recording\_id, rating) structs recommended to that user.\<close>

record raw_recommendation_row =
  raw_spark_user_id :: nat
  recommendations :: "(nat \<times> spark_float) list"

text \<open>
  The loaded \<open>ALSModel\<close>, as the two methods the module calls. Both run in the engine
  and can raise: \<open>recommendForUserSubset\<close> does so when the number of items is not a
  positive Java int.
\<close>

record als_model =
  transform :: "candidate_pair list \<Rightarrow> error + recommendation_row list"
  recommendForUserSubset :: "nat list \<Rightarrow> int \<Rightarrow> error + raw_recommendation_row list"

text \<open>
  Modelled from the spec: \<open>_is_empty_dataframe\<close> is imported from the module
  \<open>candidate_sets\<close>, which is not among the sources; the spec has the callers fail
  exactly when "the result set is empty".
\<close>

definition is_empty_dataframe :: "'a list \<Rightarrow> bool" where
  "is_empty_dataframe df = (df = [])"

section \<open>Generating recommendations\<close>

definition generate_recommendations ::
  "spark_session \<Rightarrow> candidate_pair list \<Rightarrow> als_model \<Rightarrow> int \<Rightarrow> error + recs_row list" where
  "generate_recommendations S candidate_set model limit =
     and_then (transform model candidate_set) (\<lambda>recommendations.
       if is_empty_dataframe recommendations
       then Inl (RecommendationsNotGeneratedException ''Recommendations not generated!'')
       else Inr (process_recommendations S recommendations limit))"

definition select_pair :: "candidate_row \<Rightarrow> candidate_pair" where
  "select_pair c = \<lparr>cp_spark_user_id = cs_spark_user_id c, cp_recording_id = cs_recording_id c\<rparr>"

text \<open>\<open>users\<close> is a list of users, or \<open>None\<close> (the default of \<open>main\<close>); both
  \<open>None\<close> and the empty list are false in \<open>if users\<close>.\<close>

definition get_candidate_set_rdd_for_user ::
  "candidate_row list \<Rightarrow> nat list option \<Rightarrow> error + candidate_pair list" where
  "get_candidate_set_rdd_for_user candidate_set_df users =
     (let candidate_set_user_df =
        (case users of
           None \<Rightarrow> map select_pair candidate_set_df
         | Some us \<Rightarrow>
             if us \<noteq> []
             then map select_pair (filter (\<lambda>c. cs_user_id c \<in> set us) candidate_set_df)
             else map select_pair candidate_set_df)
      in if is_empty_dataframe candidate_set_user_df
         then Inl (EmptyDataframeExcpetion ''Empty Candidate sets!'')
         else Inr candidate_set_user_df)"

definition select_user :: "candidate_row \<Rightarrow> user_row" where
  "select_user c = \<lparr>u_spark_user_id = cs_spark_user_id c, u_user_id = cs_user_id c\<rparr>"

text \<open>\<open>len(users)\<close> raises \<open>TypeError\<close> on \<open>None\<close>; \<open>distinct()\<close> is
  \<open>remdups\<close>.\<close>

definition get_user_name_and_user_id ::
  "candidate_row list \<Rightarrow> nat list option \<Rightarrow> error + user_row list" where
  "get_user_name_and_user_id top_artist_candidate_set_df users =
     (case users of
        None \<Rightarrow> Inl TypeError
      | Some us \<Rightarrow>
          (let users_df =
             (if length us = 0
              then remdups (map select_user top_artist_candidate_set_df)
              else remdups (map select_user
                     (filter (\<lambda>c. cs_user_id c \<in> set us) top_artist_candidate_set_df)))
           in if is_empty_dataframe users_df
              then Inl (EmptyDataframeExcpetion ''No active users found!'')
              else Inr users_df))"

text \<open>Both handlers of \<open>get_recommendations_for_candidate_set\<close> log and re-raise.\<close>

definition get_recommendations_for_candidate_set ::
  "spark_session \<Rightarrow> als_model \<Rightarrow> candidate_row list \<Rightarrow> int \<Rightarrow> nat list option \<Rightarrow> error + recs_row list" where
  "get_recommendations_for_candidate_set S model candidate_set_df limit users =
     and_then (get_candidate_set_rdd_for_user candidate_set_df users)
       (\<lambda>candidate_subset. generate_recommendations S candidate_subset model limit)"

text \<open>\<open>explode(recommendations)\<close>: one row per element of the array, none for an empty
  array.\<close>

definition explode :: "raw_recommendation_row list \<Rightarrow> recommendation_row list" where
  "explode raw_recommendations =
     concat (map (\<lambda>row. map (\<lambda>(rid, rating).
                    \<lparr>spark_user_id = raw_spark_user_id row, recording_id = rid, prediction = rating\<rparr>)
                  (recommendations row)) raw_recommendations)"

definition get_raw_recommendations ::
  "spark_session \<Rightarrow> als_model \<Rightarrow> int \<Rightarrow> user_row list \<Rightarrow> error + recs_row list" where
  "get_raw_recommendations S model limit users_df =
     and_then (recommendForUserSubset model (map u_spark_user_id users_df) limit)
       (\<lambda>raw_recommendations.
          let recommendations = explode raw_recommendations
          in Inr (process_recommendations S recommendations limit))"

definition get_user_count :: "recs_row list \<Rightarrow> nat" where
  "get_user_count df = length (remdups (map user_id df))"

section \<open>create\_messages\<close>

text \<open>
  \<open>user_rec\<close> is a \<open>defaultdict\<close>: a dictionary in insertion order whose missing keys
  are created with three empty lists on first access. It is an association list with one
  entry per key.
\<close>

record rec_bundle =
  top_artist :: "rec_struct list"
  similar_artist :: "rec_struct list"
  raw :: "rec_struct list"

definition default_bundle :: rec_bundle where
  "default_bundle = \<lparr>top_artist = [], similar_artist = [], raw = []\<rparr>"

text \<open>\<open>user_rec[k][field] = v\<close>, with \<open>f\<close> the assignment to the field.\<close>

fun setitem :: "(rec_bundle \<Rightarrow> rec_bundle) \<Rightarrow> nat \<Rightarrow> (nat \<times> rec_bundle) list \<Rightarrow> (nat \<times> rec_bundle) list" where
  "setitem f k [] = [(k, f default_bundle)]"
| "setitem f k ((k', b) # kvs) =
     (if k = k' then (k', f b) # kvs else (k', b) # setitem f k kvs)"

text \<open>The three loops over the rows of a dataframe; the state is the dictionary and the
  counter.\<close>

definition top_artist_loop ::
  "recs_row list \<Rightarrow> (nat \<times> rec_bundle) list \<Rightarrow> (nat \<times> rec_bundle) list \<times> nat" where
  "top_artist_loop rows user_rec =
     foldl (\<lambda>(ur, n) row. (setitem (\<lambda>b. b\<lparr>top_artist := recs row\<rparr>) (user_id row) ur, n + 1))
           (user_rec, 0) rows"

definition similar_artist_loop ::
  "recs_row list \<Rightarrow> (nat \<times> rec_bundle) list \<Rightarrow> (nat \<times> rec_bundle) list \<times> nat" where
  "similar_artist_loop rows user_rec =
     foldl (\<lambda>(ur, n) row. (setitem (\<lambda>b. b\<lparr>similar_artist := recs row\<rparr>) (user_id row) ur, n + 1))
           (user_rec, 0) rows"

definition raw_loop ::
  "recs_row list \<Rightarrow> (nat \<times> rec_bundle) list \<Rightarrow> (nat \<times> rec_bundle) list \<times> nat" where
  "raw_loop rows user_rec =
     foldl (\<lambda>(ur, n) row. (setitem (\<lambda>b. b\<lparr>raw := recs row\<rparr>) (user_id row) ur, n + 1))
           (user_rec, 0) rows"

record recommendations_dict = rec_bundle +
  model_id :: string
  model_url :: string

record user_message =
  um_user_id :: nat
  um_type :: string
  um_recommendations :: recommendations_dict

record mail_message =
  mm_type :: string
  active_user_count :: nat
  top_artist_user_count :: nat
  similar_artist_user_count :: nat
  raw_user_count :: nat
  total_time :: string

datatype message = UserMessage user_message | MailMessage mail_message

definition user_message_of :: "string \<Rightarrow> string \<Rightarrow> nat \<times> rec_bundle \<Rightarrow> message" where
  "user_message_of mid model_html_file item = (case item of (uid, data) \<Rightarrow>
     UserMessage
       \<lparr>um_user_id = uid,
        um_type = ''cf_recommendations_recording_recommendations'',
        um_recommendations =
          \<lparr>top_artist = top_artist data,
           similar_artist = similar_artist data,
           raw = raw data,
           model_id = mid,
           model_url = ''http://michael.metabrainz.org/'' @ model_html_file\<rparr>\<rparr>)"

text \<open>
  The generator yields one message per item of \<open>user_rec\<close> and then the mail message; the
  list is the sequence of the values it yields. \<open>format_2f\<close> is Python's
  \<open>'{:.2f}'.format\<close>.
\<close>

definition create_messages ::
  "(real \<Rightarrow> string) \<Rightarrow> string \<Rightarrow> string \<Rightarrow> recs_row list \<Rightarrow> recs_row list \<Rightarrow> recs_row list
     \<Rightarrow> nat \<Rightarrow> real \<Rightarrow> message list" where
  "create_messages format_2f mid model_html_file top_artist_recs_df similar_artist_recs_df
       raw_recs_df active_users elapsed =
     (case top_artist_loop top_artist_recs_df [] of (user_rec1, top_artist_rec_user_count) \<Rightarrow>
      case similar_artist_loop similar_artist_recs_df user_rec1 of
        (user_rec2, similar_artist_rec_user_count) \<Rightarrow>
      case raw_loop raw_recs_df user_rec2 of (user_rec, raw_rec_user_count) \<Rightarrow>
        map (user_message_of mid model_html_file) user_rec @
        [MailMessage
           \<lparr>mm_type = ''cf_recommendations_recording_mail'',
            active_user_count = active_users,
            top_artist_user_count = top_artist_rec_user_count,
            similar_artist_user_count = similar_artist_rec_user_count,
            raw_user_count = raw_rec_user_count,
            total_time = format_2f (elapsed / 3600)\<rparr>])"

section \<open>main\<close>

record model_metadata_row =
  md_model_id :: string
  md_model_html_file :: string
  md_model_created :: timestamp

text \<open>
  What \<open>main\<close> reads from outside the module: the outcome of starting the session, of each
  read from HDFS and of loading the model, the clock, and the two formatting functions.
  \<open>monotonic n\<close> is the value of the \<open>n\<close>-th call of \<open>time.monotonic()\<close>.
\<close>

record world =
  init_spark_session :: "error option"
  recordings_dataframe :: "error + recording_row list"
  top_artist_candidate_set :: "error + candidate_row list"
  similar_artist_candidate_set :: "error + candidate_row list"
  recording_discovery_dataframe :: "error + discovery_row list"
  model_metadata :: "error + model_metadata_row list"
  ALSModel_load :: "string \<Rightarrow> error + als_model"
  monotonic :: "nat \<Rightarrow> real"
  sql_date_format :: "timestamp \<Rightarrow> string"
  py_format_2f :: "real \<Rightarrow> string"

text \<open>\<open>ORDER BY model_created DESC LIMIT 1\<close>, then \<open>collect()[0]\<close>, which raises
  \<open>IndexError\<close> on an empty result.\<close>

primrec most_recent :: "model_metadata_row \<Rightarrow> model_metadata_row list \<Rightarrow> model_metadata_row" where
  "most_recent m [] = m"
| "most_recent m (x # xs) =
     (if md_model_created x > md_model_created m then most_recent x xs else most_recent m xs)"

definition get_most_recent_model_meta :: "world \<Rightarrow> error + (string \<times> string)" where
  "get_most_recent_model_meta W =
     and_then (model_metadata W) (\<lambda>rows.
       case rows of
         [] \<Rightarrow> Inl IndexError
       | m # ms \<Rightarrow> (let meta = most_recent m ms in Inr (md_model_id meta, md_model_html_file meta)))"

definition load_model :: "world \<Rightarrow> string \<Rightarrow> error + als_model" where
  "load_model W mid = ALSModel_load W mid"

definition main :: "world \<Rightarrow> int \<Rightarrow> int \<Rightarrow> int \<Rightarrow> nat list option \<Rightarrow> error + message list" where
  "main W recommendation_top_artist_limit recommendation_similar_artist_limit
        recommendation_raw_limit users =
     (case init_spark_session W of
        Some err \<Rightarrow> Inl err
      | None \<Rightarrow>
     and_then (recordings_dataframe W) (\<lambda>recordings_df.
     and_then (top_artist_candidate_set W) (\<lambda>top_artist_candidate_set_df.
     and_then (similar_artist_candidate_set W) (\<lambda>similar_artist_candidate_set_df.
     and_then (recording_discovery_dataframe W) (\<lambda>recording_discovery_df.
     and_then (get_most_recent_model_meta W) (\<lambda>(mid, model_html_file).
     and_then (load_model W mid) (\<lambda>model.
     let ts_initial = monotonic W 0 in
     and_then (get_user_name_and_user_id top_artist_candidate_set_df users) (\<lambda>users_df.
     let active_users = length users_df;
         S = \<lparr>date_format = sql_date_format W, recording = recordings_df, user = users_df,
              recording_discovery = recording_discovery_df\<rparr> in
     and_then (get_recommendations_for_candidate_set S model top_artist_candidate_set_df
                 recommendation_top_artist_limit users) (\<lambda>top_artist_recs_df.
     and_then (get_recommendations_for_candidate_set S model similar_artist_candidate_set_df
                 recommendation_similar_artist_limit users) (\<lambda>similar_artist_recs_df.
     and_then (get_raw_recommendations S model recommendation_raw_limit users_df) (\<lambda>raw_recs_df.
     let elapsed = monotonic W 4 - ts_initial in
     Inr (create_messages (py_format_2f W) mid model_html_file top_artist_recs_df
            similar_artist_recs_df raw_recs_df active_users elapsed))))))))))))"

section \<open>Auxiliary notions for the statements\<close>

text \<open>The common shape of the three loops of \<open>create_messages\<close>, with the assignment
  \<open>g\<close> left open, and the dictionary after all three.\<close>

definition loop ::
  "(recs_row \<Rightarrow> rec_bundle \<Rightarrow> rec_bundle) \<Rightarrow> recs_row list
     \<Rightarrow> (nat \<times> rec_bundle) list \<times> nat \<Rightarrow> (nat \<times> rec_bundle) list \<times> nat" where
  "loop g rows st = foldl (\<lambda>(ur, n) row. (setitem (g row) (user_id row) ur, n + 1)) st rows"

definition final_user_rec ::
  "recs_row list \<Rightarrow> recs_row list \<Rightarrow> recs_row list \<Rightarrow> (nat \<times> rec_bundle) list" where
  "final_user_rec top_df sim_df raw_df =
     fst (raw_loop raw_df (fst (similar_artist_loop sim_df (fst (top_artist_loop top_df [])))))"

text \<open>The list a user ends up with from one source: that of the last row of the user, and
  the empty list when the source has no row of the user.\<close>

definition source_recs :: "recs_row list \<Rightarrow> nat \<Rightarrow> rec_struct list" where
  "source_recs rows u =
     (if u \<in> user_id ` set rows then recs (last (filter (\<lambda>r. user_id r = u) rows)) else [])"

text \<open>The key \<open>user_id\<close> of a message; the mail message has none.\<close>

definition message_user_id :: "message \<Rightarrow> nat option" where
  "message_user_id m = (case m of UserMessage um \<Rightarrow> Some (um_user_id um) | MailMessage mm \<Rightarrow> None)"

text \<open>The dictionary that \<open>user_message_of\<close> wraps into a message.\<close>

definition user_dict_of :: "string \<Rightarrow> string \<Rightarrow> nat \<times> rec_bundle \<Rightarrow> user_message" where
  "user_dict_of mid model_html_file item =
     \<lparr>um_user_id = fst item,
      um_type = ''cf_recommendations_recording_recommendations'',
      um_recommendations =
        \<lparr>top_artist = top_artist (snd item),
         similar_artist = similar_artist (snd item),
         raw = raw (snd item),
         model_id = mid,
         model_url = ''http://michael.metabrainz.org/'' @ model_html_file\<rparr>\<rparr>"

text \<open>
  The restriction as the specification words it (4.1 CandidateRestrictor), on a set of
  requested users: the whole projection when the set is empty, else the projection of the rows
  of the requested users. \<open>requested_users\<close> is the set that the argument \<open>users\<close>
  stands for.
\<close>

definition requested_users :: "nat list option \<Rightarrow> nat set" where
  "requested_users users = (case users of None \<Rightarrow> {} | Some us \<Rightarrow> set us)"

definition restrict :: "candidate_row list \<Rightarrow> nat set \<Rightarrow> candidate_pair list" where
  "restrict candidateTable requestedUsers =
     (if requestedUsers = {} then map select_pair candidateTable
      else map select_pair (filter (\<lambda>c. cs_user_id c \<in> requestedUsers) candidateTable))"

text \<open>The session of a run: the views as \<open>main\<close> registers them.\<close>

definition run_session :: "world \<Rightarrow> recording_row list \<Rightarrow> user_row list \<Rightarrow> discovery_row list \<Rightarrow> spark_session" where
  "run_session W recordings_df users_df recording_discovery_df =
     \<lparr>date_format = sql_date_format W, recording = recordings_df, user = users_df,
      recording_discovery = recording_discovery_df\<rparr>"

text \<open>The rows of the query before grouping, and the keys used to compare them.\<close>

definition joined :: "spark_session \<Rightarrow> int \<Rightarrow> ranked_row list \<Rightarrow> joined_row list" where
  "joined S limit rms =
     where_rank limit (left_join_discovery S (join_user S (join_recording S rms)))"

definition joined_mbid :: "joined_row \<Rightarrow> string" where
  "joined_mbid j = (case j of (rm, r, u, d) \<Rightarrow> r_recording_mbid r)"

definition rm_pair :: "ranked_row \<Rightarrow> nat \<times> nat" where
  "rm_pair rm = (rm_spark_user_id rm, rm_recording_id rm)"

text \<open>
  The active users as the specification words them (4.5, step 5): the distinct users of the
  top artist candidate table, of the requested users only when some are requested.
\<close>

definition active_user_set :: "candidate_row list \<Rightarrow> nat set \<Rightarrow> user_row list" where
  "active_user_set candidateTable requestedUsers =
     remdups (map select_user
       (if requestedUsers = {} then candidateTable
        else filter (\<lambda>c. cs_user_id c \<in> requestedUsers) candidateTable))"

section \<open>Example inputs\<close>

text \<open>Scenario 1 of the specification: one user, three scored recordings, limit 2; the
  user has listened to recording A.\<close>

definition example_session :: spark_session where
  "example_session =
     \<lparr>date_format = (\<lambda>t. ''1970-01-01T00:00:00.000Z''),
      recording = [\<lparr>r_recording_id = 1, r_recording_mbid = ''A''\<rparr>,
                   \<lparr>r_recording_id = 2, r_recording_mbid = ''B''\<rparr>,
                   \<lparr>r_recording_id = 3, r_recording_mbid = ''C''\<rparr>],
      user = [\<lparr>u_spark_user_id = 1, u_user_id = 10\<rparr>],
      recording_discovery =
        [\<lparr>rd_user_id = 10, rd_recording_mbid = ''A'', rd_latest_listened_at = 0\<rparr>]\<rparr>"

definition example_recommendation :: "recommendation_row list" where
  "example_recommendation =
     [\<lparr>spark_user_id = 1, recording_id = 3, prediction = Num 0.3\<rparr>,
      \<lparr>spark_user_id = 1, recording_id = 1, prediction = Num 0.9\<rparr>,
      \<lparr>spark_user_id = 1, recording_id = 2, prediction = Num 0.5\<rparr>]"

definition example_recs_row :: recs_row where
  "example_recs_row =
     \<lparr>user_id = 10,
      recs = [\<lparr>recording_mbid = ''A'', score = Num 0.9,
               latest_listened_at = Some ''1970-01-01T00:00:00.000Z''\<rparr>,
              \<lparr>recording_mbid = ''B'', score = Num 0.5, latest_listened_at = None\<rparr>]\<rparr>"

text \<open>The same user with a prediction that is NaN, as the model gives for an item it has
  no factors for.\<close>

definition example_nan_recommendation :: "recommendation_row list" where
  "example_nan_recommendation =
     [\<lparr>spark_user_id = 1, recording_id = 2, prediction = Num 0.5\<rparr>,
      \<lparr>spark_user_id = 1, recording_id = 1, prediction = NaN\<rparr>]"

definition example_nan_row :: recs_row where
  "example_nan_row =
     \<lparr>user_id = 10,
      recs = [\<lparr>recording_mbid = ''A'', score = NaN,
               latest_listened_at = Some ''1970-01-01T00:00:00.000Z''\<rparr>,
              \<lparr>recording_mbid = ''B'', score = Num 0.5, latest_listened_at = None\<rparr>]\<rparr>"

text \<open>Scenario 5 of the specification: two users in the top artist source, one in the
  similar artist source, three in the raw source; and a source with two rows of one user.\<close>

definition example_top_df :: "recs_row list" where
  "example_top_df =
     [\<lparr>user_id = 10, recs = [\<lparr>recording_mbid = ''A'', score = Num 0.9, latest_listened_at = None\<rparr>]\<rparr>,
      \<lparr>user_id = 11, recs = [\<lparr>recording_mbid = ''B'', score = Num 0.5, latest_listened_at = None\<rparr>]\<rparr>]"

definition example_sim_df :: "recs_row list" where
  "example_sim_df =
     [\<lparr>user_id = 10, recs = [\<lparr>recording_mbid = ''C'', score = Num 0.3, latest_listened_at = None\<rparr>]\<rparr>]"

definition example_raw_df :: "recs_row list" where
  "example_raw_df =
     [\<lparr>user_id = 12, recs = [\<lparr>recording_mbid = ''D'', score = Num 0.7, latest_listened_at = None\<rparr>]\<rparr>,
      \<lparr>user_id = 10, recs = [\<lparr>recording_mbid = ''E'', score = Num 0.6, latest_listened_at = None\<rparr>]\<rparr>,
      \<lparr>user_id = 13, recs = [\<lparr>recording_mbid = ''F'', score = Num 0.4, latest_listened_at = None\<rparr>]\<rparr>]"

definition example_dup_df :: "recs_row list" where
  "example_dup_df =
     [\<lparr>user_id = 10, recs = [\<lparr>recording_mbid = ''A'', score = Num 0.9, latest_listened_at = None\<rparr>]\<rparr>,
      \<lparr>user_id = 10, recs = [\<lparr>recording_mbid = ''B'', score = Num 0.5, latest_listened_at = None\<rparr>]\<rparr>]"

definition example_format_2f :: "real \<Rightarrow> string" where
  "example_format_2f x = ''0.50''"

text \<open>A candidate set, a model that scores a pair by its recording id and has no
  recommendation of its own for any user, and the world of a run on them.\<close>

definition example_candidate_set :: "candidate_row list" where
  "example_candidate_set =
     [\<lparr>cs_spark_user_id = 1, cs_recording_id = 1, cs_user_id = 10\<rparr>,
      \<lparr>cs_spark_user_id = 1, cs_recording_id = 2, cs_user_id = 10\<rparr>,
      \<lparr>cs_spark_user_id = 2, cs_recording_id = 3, cs_user_id = 11\<rparr>]"

definition example_model :: als_model where
  "example_model =
     \<lparr>transform = (\<lambda>cs. Inr (map (\<lambda>c. \<lparr>spark_user_id = cp_spark_user_id c,
                                         recording_id = cp_recording_id c,
                                         prediction = Num (real (cp_recording_id c) / 10)\<rparr>) cs)),
      recommendForUserSubset =
        (\<lambda>users n. if n < - (2 ^ 31) \<or> 2 ^ 31 \<le> n then Inl Py4JError
                    else if n \<le> 0 then Inl Py4JJavaError
                    else Inr [])\<rparr>"

definition example_meta :: model_metadata_row where
  "example_meta = \<lparr>md_model_id = ''m'', md_model_html_file = ''h.html'', md_model_created = 1\<rparr>"

definition example_world :: world where
  "example_world =
     \<lparr>init_spark_session = None,
      recordings_dataframe = Inr (recording example_session),
      top_artist_candidate_set = Inr example_candidate_set,
      similar_artist_candidate_set = Inr example_candidate_set,
      recording_discovery_dataframe = Inr [],
      model_metadata = Inr [example_meta],
      ALSModel_load = (\<lambda>mid. Inr example_model),
      monotonic = (\<lambda>n. 450 * real n),
      sql_date_format = date_format example_session,
      py_format_2f = example_format_2f\<rparr>"

definition example_users_df :: "user_row list" where
  "example_users_df =
     [\<lparr>u_spark_user_id = 1, u_user_id = 10\<rparr>, \<lparr>u_spark_user_id = 2, u_user_id = 11\<rparr>]"

definition example_run_session :: spark_session where
  "example_run_session =
     run_session example_world (recording example_session) example_users_df []"

definition example_run_df :: "recs_row list" where
  "example_run_df =
     [\<lparr>user_id = 10,
       recs = [\<lparr>recording_mbid = ''B'', score = Num 0.2, latest_listened_at = None\<rparr>,
               \<lparr>recording_mbid = ''A'', score = Num 0.1, latest_listened_at = None\<rparr>]\<rparr>,
      \<lparr>user_id = 11,
       recs = [\<lparr>recording_mbid = ''C'', score = Num 0.3, latest_listened_at = None\<rparr>]\<rparr>]"

text \<open>The candidate pairs and the predictions of that run, a model that returns no
  prediction, and worlds with that model and with an empty similar artist candidate set.\<close>

definition example_pairs :: "candidate_pair list" where
  "example_pairs = map select_pair example_candidate_set"

definition example_scored :: "recommendation_row list" where
  "example_scored =
     [\<lparr>spark_user_id = 1, recording_id = 1, prediction = Num 0.1\<rparr>,
      \<lparr>spark_user_id = 1, recording_id = 2, prediction = Num 0.2\<rparr>,
      \<lparr>spark_user_id = 2, recording_id = 3, prediction = Num 0.3\<rparr>]"

definition example_silent_model :: als_model where
  "example_silent_model = example_model\<lparr>transform := (\<lambda>cs. Inr [])\<rparr>"

definition example_world_silent :: world where
  "example_world_silent = example_world\<lparr>ALSModel_load := (\<lambda>mid. Inr example_silent_model)\<rparr>"

definition example_world_no_similar :: world where
  "example_world_no_similar = example_world\<lparr>similar_artist_candidate_set := Inr []\<rparr>"

text \<open>Predictions one of whose recordings has no row in the view \<open>recording\<close>, and a
  view \<open>recording\<close> that gives two recording ids one mbid.\<close>

definition example_unresolved_recommendation :: "recommendation_row list" where
  "example_unresolved_recommendation =
     [\<lparr>spark_user_id = 1, recording_id = 1, prediction = Num 0.9\<rparr>,
      \<lparr>spark_user_id = 1, recording_id = 7, prediction = Num 0.5\<rparr>]"

definition example_unresolved_row :: recs_row where
  "example_unresolved_row =
     \<lparr>user_id = 10,
      recs = [\<lparr>recording_mbid = ''A'', score = Num 0.9,
               latest_listened_at = Some ''1970-01-01T00:00:00.000Z''\<rparr>]\<rparr>"

definition example_shared_mbid_session :: spark_session where
  "example_shared_mbid_session =
     \<lparr>date_format = (\<lambda>t. ''1970-01-01T00:00:00.000Z''),
      recording = [\<lparr>r_recording_id = 1, r_recording_mbid = ''A''\<rparr>,
                   \<lparr>r_recording_id = 2, r_recording_mbid = ''A''\<rparr>],
      user = [\<lparr>u_spark_user_id = 1, u_user_id = 10\<rparr>],
      recording_discovery = []\<rparr>"

definition example_two_recommendation :: "recommendation_row list" where
  "example_two_recommendation =
     [\<lparr>spark_user_id = 1, recording_id = 1, prediction = Num 0.9\<rparr>,
      \<lparr>spark_user_id = 1, recording_id = 2, prediction = Num 0.5\<rparr>]"

definition example_shared_mbid_row :: recs_row where
  "example_shared_mbid_row =
     \<lparr>user_id = 10,
      recs = [\<lparr>recording_mbid = ''A'', score = Num 0.9, latest_listened_at = None\<rparr>,
              \<lparr>recording_mbid = ''A'', score = Num 0.5, latest_listened_at = None\<rparr>]\<rparr>"

section \<open>Ordering of a ranked list\<close>

lemma spark_less_asym: "spark_less a b \<Longrightarrow> \<not> spark_less b a"
  by (cases a; cases b) simp_all

lemma spark_not_less_trans:
  "\<not> spark_less a b \<Longrightarrow> \<not> spark_less b c \<Longrightarrow> \<not> spark_less a c"
  by (cases a; cases b; cases c) simp_all

lemma float_ge_iff: "\<not> spark_less a b \<Longrightarrow> float_ge a b \<longleftrightarrow> a \<noteq> NaN"
  by (cases a; cases b) simp_all

lemma set_array_insert: "set (array_insert cmp x ys) = insert x (set ys)"
  by (induction ys) auto

lemma score_cmp_le0: "score_cmp a b \<le> 0 \<longleftrightarrow> \<not> spark_less (score a) (score b)"
  using spark_less_asym [of "score b" "score a"] by (auto simp: score_cmp_def)

lemma sorted_array_insert:
  assumes "sorted_wrt (\<lambda>a b. \<not> spark_less (score a) (score b)) ys"
  shows "sorted_wrt (\<lambda>a b. \<not> spark_less (score a) (score b)) (array_insert score_cmp x ys)"
  using assms
proof (induction ys)
  case Nil
  show ?case by simp
next
  case (Cons y ys)
  show ?case
  proof (cases "spark_less (score x) (score y)")
    case False
    have "\<not> spark_less (score x) (score z)" if "z \<in> set ys" for z
    proof -
      from Cons.prems that have "\<not> spark_less (score y) (score z)" by simp
      with False show ?thesis by (rule spark_not_less_trans)
    qed
    with False Cons.prems show ?thesis
      by (simp add: score_cmp_le0)
  next
    case True
    then have "\<not> spark_less (score y) (score x)" by (rule spark_less_asym)
    with True Cons show ?thesis
      by (auto simp: score_cmp_le0 set_array_insert)
  qed
qed

lemma sorted_array_sort:
  "sorted_wrt (\<lambda>a b. \<not> spark_less (score a) (score b)) (array_sort score_cmp xs)"
  unfolding array_sort_def by (induction xs) (simp_all add: sorted_array_insert)

lemma example_process_recommendations:
  "process_recommendations example_session example_recommendation 2 = [example_recs_row]"
  by code_simp

text \<open>
  Claim C2 as stated fails: a prediction that is NaN is ranked first and stays first in the
  sorted list, and NaN \<open>>=\<close> 0.5 is false.
\<close>

theorem ranked_list_scores_counterexample:
  "process_recommendations example_session example_nan_recommendation 2 = [example_nan_row]
   \<and> \<not> float_ge (score (recs example_nan_row ! 0)) (score (recs example_nan_row ! 1))"
  by code_simp

text \<open>
  Claim C2, amended. In every row that \<open>process_recommendations\<close> returns, the scores of the
  list \<open>recs\<close> are non-increasing in the order of Spark SQL, in which NaN is the largest
  value: no entry's score is less than the score of the next entry. An entry's score is
  \<open>>=\<close> the score of the next entry exactly when it is not NaN; so the scores that are NaN
  come first, and from the first score that is not NaN on, each score is \<open>>=\<close> the next.
\<close>

theorem ranked_list_scores_non_increasing:
  assumes "row \<in> set (process_recommendations S recommendation_df limit)"
    and "Suc i < length (recs row)"
  shows "\<not> spark_less (score (recs row ! i)) (score (recs row ! Suc i))
     \<and> (float_ge (score (recs row ! i)) (score (recs row ! Suc i))
          \<longleftrightarrow> score (recs row ! i) \<noteq> NaN)"
proof -
  from assms(1) obtain uid js where "recs row = array_sort score_cmp (collect_list S uid js)"
    by (auto simp: process_recommendations_def group_by_user_id_def)
  then have "sorted_wrt (\<lambda>a b. \<not> spark_less (score a) (score b)) (recs row)"
    by (simp add: sorted_array_sort)
  with assms(2) have "\<not> spark_less (score (recs row ! i)) (score (recs row ! Suc i))"
    by (simp add: sorted_wrt_iff_nth_less)
  then show ?thesis
    by (simp add: float_ge_iff)
qed

theorem ranked_list_scores_non_increasing_witness:
  "example_recs_row \<in> set (process_recommendations example_session example_recommendation 2)
   \<and> Suc 0 < length (recs example_recs_row)
   \<and> score (recs example_recs_row ! 0) \<noteq> NaN
   \<and> \<not> spark_less (score (recs example_recs_row ! 0)) (score (recs example_recs_row ! Suc 0))
   \<and> float_ge (score (recs example_recs_row ! 0)) (score (recs example_recs_row ! Suc 0))"
proof -
  have mem: "example_recs_row \<in> set (process_recommendations example_session example_recommendation 2)"
    by (simp add: example_process_recommendations)
  have len: "Suc 0 < length (recs example_recs_row)"
    by (simp add: example_recs_row_def)
  have nn: "score (recs example_recs_row ! 0) \<noteq> NaN"
    by (simp add: example_recs_row_def)
  from ranked_list_scores_non_increasing [OF mem len] mem len nn show ?thesis
    by simp
qed

section \<open>The dictionary of create\_messages\<close>


lemma keys_setitem:
  "map fst (setitem f k kvs) = (if k \<in> fst ` set kvs then map fst kvs else map fst kvs @ [k])"
  by (induction f k kvs rule: setitem.induct) auto

lemma set_keys_setitem: "fst ` set (setitem f k kvs) = insert k (fst ` set kvs)"
proof -
  have "set (map fst (setitem f k kvs)) = insert k (set (map fst kvs))"
    unfolding keys_setitem by auto
  then show ?thesis by simp
qed

lemma distinct_keys_setitem:
  "distinct (map fst kvs) \<Longrightarrow> distinct (map fst (setitem f k kvs))"
  unfolding keys_setitem by auto

lemma map_of_setitem:
  "map_of (setitem f k kvs) =
     (map_of kvs)(k \<mapsto> f (case map_of kvs k of None \<Rightarrow> default_bundle | Some b \<Rightarrow> b))"
  by (induction f k kvs rule: setitem.induct) (auto simp: fun_eq_iff)


lemma loop_snoc: "loop g (rows @ [row]) st =
   (setitem (g row) (user_id row) (fst (loop g rows st)), snd (loop g rows st) + 1)"
  by (simp add: loop_def split_beta)

lemma loop_Nil: "loop g [] st = st"
  by (simp add: loop_def)

lemma loop_count: "snd (loop g rows (ur, n)) = n + length rows"
  by (induction rows rule: rev_induct) (simp_all add: loop_snoc loop_Nil)

lemma loop_keys: "fst ` set (fst (loop g rows (ur, n))) = fst ` set ur \<union> user_id ` set rows"
  by (induction rows rule: rev_induct) (auto simp: loop_snoc loop_Nil set_keys_setitem)

lemma loop_distinct: "distinct (map fst ur) \<Longrightarrow> distinct (map fst (fst (loop g rows (ur, n))))"
  by (induction rows rule: rev_induct) (simp_all add: loop_snoc loop_Nil distinct_keys_setitem)

lemma loop_absent:
  "u \<notin> user_id ` set rows \<Longrightarrow> map_of (fst (loop g rows (ur, n))) u = map_of ur u"
  by (induction rows rule: rev_induct) (auto simp: loop_snoc loop_Nil map_of_setitem)


lemma loop_present:
  assumes g: "\<And>r r' b. g r (g r' b) = g r b"
    and u: "u \<in> user_id ` set rows"
  shows "map_of (fst (loop g rows (ur, n))) u =
     Some (g (last (filter (\<lambda>r. user_id r = u) rows))
             (case map_of ur u of None \<Rightarrow> default_bundle | Some b \<Rightarrow> b))"
  using u
proof (induction rows rule: rev_induct)
  case Nil
  then show ?case by simp
next
  case (snoc row rows)
  show ?case
  proof (cases "user_id row = u")
    case True
    show ?thesis
    proof (cases "u \<in> user_id ` set rows")
      case True
      with snoc.IH \<open>user_id row = u\<close> show ?thesis
        by (simp add: loop_snoc map_of_setitem g)
    next
      case False
      with \<open>user_id row = u\<close> show ?thesis
        by (simp add: loop_snoc map_of_setitem loop_absent)
    qed
  next
    case False
    with snoc.prems have "u \<in> user_id ` set rows" by auto
    with snoc.IH False show ?thesis
      by (simp add: loop_snoc map_of_setitem)
  qed
qed

lemma top_artist_loop_eq:
  "top_artist_loop rows ur = loop (\<lambda>row b. b\<lparr>top_artist := recs row\<rparr>) rows (ur, 0)"
  by (simp add: top_artist_loop_def loop_def)

lemma similar_artist_loop_eq:
  "similar_artist_loop rows ur = loop (\<lambda>row b. b\<lparr>similar_artist := recs row\<rparr>) rows (ur, 0)"
  by (simp add: similar_artist_loop_def loop_def)

lemma raw_loop_eq:
  "raw_loop rows ur = loop (\<lambda>row b. b\<lparr>raw := recs row\<rparr>) rows (ur, 0)"
  by (simp add: raw_loop_def loop_def)



lemma create_messages_eq:
  "create_messages format_2f mid html top_df sim_df raw_df au el =
     map (user_message_of mid html) (final_user_rec top_df sim_df raw_df) @
     [MailMessage \<lparr>mm_type = ''cf_recommendations_recording_mail'',
        active_user_count = au,
        top_artist_user_count = length top_df,
        similar_artist_user_count = length sim_df,
        raw_user_count = length raw_df,
        total_time = format_2f (el / 3600)\<rparr>]"
proof -
  have 1: "snd (top_artist_loop top_df []) = length top_df"
    by (simp add: top_artist_loop_eq loop_count)
  have 2: "snd (similar_artist_loop sim_df ur) = length sim_df" for ur
    by (simp add: similar_artist_loop_eq loop_count)
  have 3: "snd (raw_loop raw_df ur) = length raw_df" for ur
    by (simp add: raw_loop_eq loop_count)
  show ?thesis
    by (simp add: create_messages_def final_user_rec_def split_beta 1 2 3)
qed

lemma final_user_rec_keys:
  "fst ` set (final_user_rec top_df sim_df raw_df) = user_id ` (set top_df \<union> set sim_df \<union> set raw_df)"
  by (simp add: final_user_rec_def top_artist_loop_eq similar_artist_loop_eq raw_loop_eq
      loop_keys image_Un Un_assoc)

lemma final_user_rec_distinct: "distinct (map fst (final_user_rec top_df sim_df raw_df))"
  by (simp add: final_user_rec_def top_artist_loop_eq similar_artist_loop_eq raw_loop_eq
      loop_distinct)

lemma final_user_rec_lookup:
  assumes "u \<in> user_id ` (set top_df \<union> set sim_df \<union> set raw_df)"
  shows "map_of (final_user_rec top_df sim_df raw_df) u =
     Some \<lparr>top_artist = source_recs top_df u, similar_artist = source_recs sim_df u,
           raw = source_recs raw_df u\<rparr>"
proof -
  let ?gt = "\<lambda>row b. b\<lparr>top_artist := recs row\<rparr>"
  let ?gs = "\<lambda>row b. b\<lparr>similar_artist := recs row\<rparr>"
  let ?gr = "\<lambda>row b. b\<lparr>raw := recs row\<rparr>"
  let ?u1 = "fst (loop ?gt top_df ([], 0))"
  let ?u2 = "fst (loop ?gs sim_df (?u1, 0))"
  let ?u3 = "fst (loop ?gr raw_df (?u2, 0))"
  have m1: "map_of ?u1 u =
      (if u \<in> user_id ` set top_df then Some (default_bundle\<lparr>top_artist := source_recs top_df u\<rparr>) else None)"
    by (simp add: loop_present loop_absent source_recs_def)
  have m2: "map_of ?u2 u =
      (if u \<in> user_id ` set sim_df
       then Some ((case map_of ?u1 u of None \<Rightarrow> default_bundle | Some b \<Rightarrow> b)\<lparr>similar_artist := source_recs sim_df u\<rparr>)
       else map_of ?u1 u)"
    by (simp add: loop_present loop_absent source_recs_def)
  have m3: "map_of ?u3 u =
      (if u \<in> user_id ` set raw_df
       then Some ((case map_of ?u2 u of None \<Rightarrow> default_bundle | Some b \<Rightarrow> b)\<lparr>raw := source_recs raw_df u\<rparr>)
       else map_of ?u2 u)"
    by (simp add: loop_present loop_absent source_recs_def)
  have "map_of ?u3 u = Some \<lparr>top_artist = source_recs top_df u, similar_artist = source_recs sim_df u,
           raw = source_recs raw_df u\<rparr>"
    using assms unfolding m3 m2 m1
    by (auto simp: default_bundle_def source_recs_def)
  then show ?thesis
    by (simp add: final_user_rec_def top_artist_loop_eq similar_artist_loop_eq raw_loop_eq)
qed

section \<open>Messages and user counts\<close>

lemma filter_key_unique:
  "distinct (map fst kvs) \<Longrightarrow> map_of kvs k = Some v \<Longrightarrow> filter (\<lambda>kv. fst kv = k) kvs = [(k, v)]"
proof (induction kvs)
  case Nil
  then show ?case by simp
next
  case (Cons kv kvs)
  obtain k' v' where kv: "kv = (k', v')" by (cases kv)
  show ?case
  proof (cases "k' = k")
    case True
    with Cons.prems kv have "v' = v" and "k \<notin> fst ` set kvs" by auto
    then have "filter (\<lambda>kv. fst kv = k) kvs = []"
      by (auto simp: filter_empty_conv)
    with True kv \<open>v' = v\<close> show ?thesis by simp
  next
    case False
    with Cons kv show ?thesis by simp
  qed
qed

lemma message_user_id_user_message_of:
  "message_user_id (user_message_of mid html kv) = Some (fst kv)"
  by (cases kv) (simp add: message_user_id_def user_message_of_def)

lemma filter_messages_of_user:
  "filter (\<lambda>x. message_user_id x = Some u) (create_messages format_2f mid html top_df sim_df raw_df au el)
     = map (user_message_of mid html) (filter (\<lambda>kv. fst kv = u) (final_user_rec top_df sim_df raw_df))"
  by (simp add: create_messages_eq filter_map o_def message_user_id_user_message_of)
     (simp add: message_user_id_def)

text \<open>
  Claim C5. For every user who has a row in at least one of the three dataframes given to
  \<open>create_messages\<close>, exactly one message of the output carries that user's id, and in it
  every source without a row of the user is the empty list.
\<close>

theorem one_bundle_per_user:
  assumes "u \<in> user_id ` (set top_df \<union> set sim_df \<union> set raw_df)"
  shows "\<exists>m. filter (\<lambda>x. message_user_id x = Some u)
               (create_messages format_2f mid html top_df sim_df raw_df au el) = [UserMessage m]
     \<and> um_user_id m = u
     \<and> (u \<notin> user_id ` set top_df \<longrightarrow> top_artist (um_recommendations m) = [])
     \<and> (u \<notin> user_id ` set sim_df \<longrightarrow> similar_artist (um_recommendations m) = [])
     \<and> (u \<notin> user_id ` set raw_df \<longrightarrow> raw (um_recommendations m) = [])"
proof -
  let ?b = "\<lparr>top_artist = source_recs top_df u, similar_artist = source_recs sim_df u,
           raw = source_recs raw_df u\<rparr>"
  have "filter (\<lambda>kv. fst kv = u) (final_user_rec top_df sim_df raw_df) = [(u, ?b)]"
    using final_user_rec_distinct final_user_rec_lookup [OF assms]
    by (rule filter_key_unique)
  then have "filter (\<lambda>x. message_user_id x = Some u)
               (create_messages format_2f mid html top_df sim_df raw_df au el)
             = [user_message_of mid html (u, ?b)]"
    by (simp add: filter_messages_of_user)
  then show ?thesis
    by (simp add: user_message_of_def source_recs_def)
qed

lemma user_message_of_eq: "user_message_of mid html = UserMessage \<circ> user_dict_of mid html"
  by (auto simp: fun_eq_iff user_message_of_def user_dict_of_def)

lemma create_messages_shape:
  "create_messages format_2f mid html top_df sim_df raw_df au el =
     map UserMessage (map (user_dict_of mid html) (final_user_rec top_df sim_df raw_df)) @
     [MailMessage \<lparr>mm_type = ''cf_recommendations_recording_mail'',
        active_user_count = au,
        top_artist_user_count = length top_df,
        similar_artist_user_count = length sim_df,
        raw_user_count = length raw_df,
        total_time = format_2f (el / 3600)\<rparr>]"
  by (simp add: create_messages_eq user_message_of_eq)

lemma user_ids_of_messages:
  "map um_user_id (map (user_dict_of mid html) kvs) = map fst kvs"
  by (simp add: user_dict_of_def o_def)

text \<open>
  Claim C8. The output of \<open>create_messages\<close> is one message per user of the dictionary (no
  user twice, and exactly the users of the three dataframes), each carrying the model id and
  the model url, followed by one mail message, which is the last element.
\<close>

theorem user_messages_then_one_mail_message:
  "\<exists>ums mail. create_messages format_2f mid html top_df sim_df raw_df au el
                  = map UserMessage ums @ [MailMessage mail]
     \<and> distinct (map um_user_id ums)
     \<and> set (map um_user_id ums) = user_id ` (set top_df \<union> set sim_df \<union> set raw_df)
     \<and> (\<forall>m \<in> set ums. model_id (um_recommendations m) = mid
            \<and> model_url (um_recommendations m) = ''http://michael.metabrainz.org/'' @ html)"
proof -
  let ?ums = "map (user_dict_of mid html) (final_user_rec top_df sim_df raw_df)"
  have "distinct (map um_user_id ?ums)"
    unfolding user_ids_of_messages by (rule final_user_rec_distinct)
  moreover have "set (map um_user_id ?ums) = user_id ` (set top_df \<union> set sim_df \<union> set raw_df)"
    unfolding user_ids_of_messages using final_user_rec_keys [of top_df sim_df raw_df] by simp
  moreover have "\<forall>m \<in> set ?ums. model_id (um_recommendations m) = mid
            \<and> model_url (um_recommendations m) = ''http://michael.metabrainz.org/'' @ html"
    by (auto simp: user_dict_of_def)
  ultimately show ?thesis
    using create_messages_shape [of format_2f mid html top_df sim_df raw_df au el] by blast
qed

lemma card_user_ids: "distinct (map user_id rows) \<Longrightarrow> card (user_id ` set rows) = length rows"
  using distinct_card [of "map user_id rows"] by simp

text \<open>
  Claim C6. When each source holds one row per user (a mapping from users to lists, as every
  dataframe returned by \<open>process_recommendations\<close> is), each of the three user counts of
  the mail message is the number of distinct users of its own source.
\<close>

theorem user_counts_are_distinct_user_counts:
  assumes "distinct (map user_id top_df)" and "distinct (map user_id sim_df)"
    and "distinct (map user_id raw_df)"
  shows "\<exists>ums mail. create_messages format_2f mid html top_df sim_df raw_df au el
                  = map UserMessage ums @ [MailMessage mail]
     \<and> top_artist_user_count mail = card (user_id ` set top_df)
     \<and> similar_artist_user_count mail = card (user_id ` set sim_df)
     \<and> raw_user_count mail = card (user_id ` set raw_df)"
proof -
  let ?mail = "\<lparr>mm_type = ''cf_recommendations_recording_mail'',
        active_user_count = au,
        top_artist_user_count = length top_df,
        similar_artist_user_count = length sim_df,
        raw_user_count = length raw_df,
        total_time = format_2f (el / 3600)\<rparr>"
  have "top_artist_user_count ?mail = card (user_id ` set top_df)"
    and "similar_artist_user_count ?mail = card (user_id ` set sim_df)"
    and "raw_user_count ?mail = card (user_id ` set raw_df)"
    using assms by (simp_all add: card_user_ids)
  then show ?thesis
    using create_messages_shape [of format_2f mid html top_df sim_df raw_df au el] by blast
qed

lemma length_gt_card_iff:
  "card (user_id ` set rows) < length rows \<longleftrightarrow> \<not> distinct (map user_id rows)"
proof -
  have "card (set (map user_id rows)) \<le> length (map user_id rows)"
    by (rule card_length)
  moreover have "card (set (map user_id rows)) = length (map user_id rows) \<longleftrightarrow> distinct (map user_id rows)"
    using card_distinct [of "map user_id rows"] distinct_card [of "map user_id rows"] by auto
  ultimately show ?thesis by auto
qed

lemma source_recs_in_messages:
  assumes "m \<in> set (map (user_dict_of mid html) (final_user_rec top_df sim_df raw_df))"
  shows "top_artist (um_recommendations m) = source_recs top_df (um_user_id m)
     \<and> similar_artist (um_recommendations m) = source_recs sim_df (um_user_id m)
     \<and> raw (um_recommendations m) = source_recs raw_df (um_user_id m)"
proof -
  from assms obtain u b where ub: "(u, b) \<in> set (final_user_rec top_df sim_df raw_df)"
    and m: "m = user_dict_of mid html (u, b)" by auto
  from ub have "u \<in> fst ` set (final_user_rec top_df sim_df raw_df)" by force
  then have "u \<in> user_id ` (set top_df \<union> set sim_df \<union> set raw_df)"
    by (simp only: final_user_rec_keys)
  then have "map_of (final_user_rec top_df sim_df raw_df) u =
     Some \<lparr>top_artist = source_recs top_df u, similar_artist = source_recs sim_df u,
           raw = source_recs raw_df u\<rparr>"
    by (rule final_user_rec_lookup)
  moreover from ub have "map_of (final_user_rec top_df sim_df raw_df) u = Some b"
    using final_user_rec_distinct by (simp add: map_of_eq_Some_iff)
  ultimately have "b = \<lparr>top_artist = source_recs top_df u, similar_artist = source_recs sim_df u,
           raw = source_recs raw_df u\<rparr>" by simp
  with m show ?thesis by (simp add: user_dict_of_def)
qed

text \<open>
  Claim C10. Each user count of the mail message is the number of rows of its source, so a
  user with several rows is counted once per row; the list a user's message holds for a source
  is that of the user's last row there; and a count exceeds the number of distinct users of
  its source exactly when the source has two rows of one user.
\<close>

theorem duplicate_rows_counted_per_row_last_row_kept:
  "\<exists>ums mail. create_messages format_2f mid html top_df sim_df raw_df au el
                  = map UserMessage ums @ [MailMessage mail]
     \<and> top_artist_user_count mail = length top_df
     \<and> similar_artist_user_count mail = length sim_df
     \<and> raw_user_count mail = length raw_df
     \<and> (\<forall>m \<in> set ums.
           (um_user_id m \<in> user_id ` set top_df \<longrightarrow>
              top_artist (um_recommendations m)
                = recs (last (filter (\<lambda>r. user_id r = um_user_id m) top_df)))
         \<and> (um_user_id m \<in> user_id ` set sim_df \<longrightarrow>
              similar_artist (um_recommendations m)
                = recs (last (filter (\<lambda>r. user_id r = um_user_id m) sim_df)))
         \<and> (um_user_id m \<in> user_id ` set raw_df \<longrightarrow>
              raw (um_recommendations m)
                = recs (last (filter (\<lambda>r. user_id r = um_user_id m) raw_df))))
     \<and> (card (user_id ` set top_df) < top_artist_user_count mail
            \<longleftrightarrow> \<not> distinct (map user_id top_df))
     \<and> (card (user_id ` set sim_df) < similar_artist_user_count mail
            \<longleftrightarrow> \<not> distinct (map user_id sim_df))
     \<and> (card (user_id ` set raw_df) < raw_user_count mail
            \<longleftrightarrow> \<not> distinct (map user_id raw_df))"
proof -
  let ?ums = "map (user_dict_of mid html) (final_user_rec top_df sim_df raw_df)"
  let ?mail = "\<lparr>mm_type = ''cf_recommendations_recording_mail'',
        active_user_count = au,
        top_artist_user_count = length top_df,
        similar_artist_user_count = length sim_df,
        raw_user_count = length raw_df,
        total_time = format_2f (el / 3600)\<rparr>"
  have counts: "top_artist_user_count ?mail = length top_df"
    "similar_artist_user_count ?mail = length sim_df"
    "raw_user_count ?mail = length raw_df"
    by simp_all
  have lists: "\<forall>m \<in> set ?ums.
           (um_user_id m \<in> user_id ` set top_df \<longrightarrow>
              top_artist (um_recommendations m)
                = recs (last (filter (\<lambda>r. user_id r = um_user_id m) top_df)))
         \<and> (um_user_id m \<in> user_id ` set sim_df \<longrightarrow>
              similar_artist (um_recommendations m)
                = recs (last (filter (\<lambda>r. user_id r = um_user_id m) sim_df)))
         \<and> (um_user_id m \<in> user_id ` set raw_df \<longrightarrow>
              raw (um_recommendations m)
                = recs (last (filter (\<lambda>r. user_id r = um_user_id m) raw_df)))"
  proof
    fix m assume "m \<in> set ?ums"
    from source_recs_in_messages [OF this]
    show "(um_user_id m \<in> user_id ` set top_df \<longrightarrow>
              top_artist (um_recommendations m)
                = recs (last (filter (\<lambda>r. user_id r = um_user_id m) top_df)))
         \<and> (um_user_id m \<in> user_id ` set sim_df \<longrightarrow>
              similar_artist (um_recommendations m)
                = recs (last (filter (\<lambda>r. user_id r = um_user_id m) sim_df)))
         \<and> (um_user_id m \<in> user_id ` set raw_df \<longrightarrow>
              raw (um_recommendations m)
                = recs (last (filter (\<lambda>r. user_id r = um_user_id m) raw_df)))"
      by (simp add: source_recs_def)
  qed
  have exceed: "card (user_id ` set top_df) < top_artist_user_count ?mail
            \<longleftrightarrow> \<not> distinct (map user_id top_df)"
    "card (user_id ` set sim_df) < similar_artist_user_count ?mail
            \<longleftrightarrow> \<not> distinct (map user_id sim_df)"
    "card (user_id ` set raw_df) < raw_user_count ?mail
            \<longleftrightarrow> \<not> distinct (map user_id raw_df)"
    by (simp_all add: length_gt_card_iff)
  from counts lists exceed
    create_messages_shape [of format_2f mid html top_df sim_df raw_df au el]
  show ?thesis by blast
qed

theorem one_bundle_per_user_witness:
  "(12::nat) \<in> user_id ` (set example_top_df \<union> set example_sim_df \<union> set example_raw_df)
   \<and> 12 \<notin> user_id ` set example_top_df \<and> 12 \<notin> user_id ` set example_sim_df
   \<and> (\<exists>m. filter (\<lambda>x. message_user_id x = Some 12)
               (create_messages example_format_2f ''m'' ''h.html''
                  example_top_df example_sim_df example_raw_df 4 1800) = [UserMessage m]
          \<and> um_user_id m = 12
          \<and> top_artist (um_recommendations m) = []
          \<and> similar_artist (um_recommendations m) = [])
   \<and> (11::nat) \<in> user_id ` (set example_top_df \<union> set example_sim_df \<union> set example_raw_df)
   \<and> 11 \<notin> user_id ` set example_raw_df
   \<and> (\<exists>m. filter (\<lambda>x. message_user_id x = Some 11)
               (create_messages example_format_2f ''m'' ''h.html''
                  example_top_df example_sim_df example_raw_df 4 1800) = [UserMessage m]
          \<and> um_user_id m = 11
          \<and> raw (um_recommendations m) = [])"
proof -
  have m12: "(12::nat) \<in> user_id ` (set example_top_df \<union> set example_sim_df \<union> set example_raw_df)"
    and m11: "(11::nat) \<in> user_id ` (set example_top_df \<union> set example_sim_df \<union> set example_raw_df)"
    by (simp_all add: example_top_df_def example_sim_df_def example_raw_df_def)
  have a12: "12 \<notin> user_id ` set example_top_df" "12 \<notin> user_id ` set example_sim_df"
    and a11: "11 \<notin> user_id ` set example_raw_df"
    by (simp_all add: example_top_df_def example_sim_df_def example_raw_df_def)
  from one_bundle_per_user [OF m12, of example_format_2f "''m''" "''h.html''" 4 1800] a12
  have 1: "\<exists>m. filter (\<lambda>x. message_user_id x = Some 12)
               (create_messages example_format_2f ''m'' ''h.html''
                  example_top_df example_sim_df example_raw_df 4 1800) = [UserMessage m]
          \<and> um_user_id m = 12
          \<and> top_artist (um_recommendations m) = []
          \<and> similar_artist (um_recommendations m) = []"
    by blast
  from one_bundle_per_user [OF m11, of example_format_2f "''m''" "''h.html''" 4 1800] a11
  have 2: "\<exists>m. filter (\<lambda>x. message_user_id x = Some 11)
               (create_messages example_format_2f ''m'' ''h.html''
                  example_top_df example_sim_df example_raw_df 4 1800) = [UserMessage m]
          \<and> um_user_id m = 11
          \<and> raw (um_recommendations m) = []"
    by blast
  from m12 m11 a12 a11 1 2 show ?thesis by blast
qed

theorem user_messages_then_one_mail_message_witness:
  "\<exists>ums mail. create_messages example_format_2f ''m'' ''h.html''
                  example_top_df example_sim_df example_raw_df 4 1800
                  = map UserMessage ums @ [MailMessage mail]
     \<and> length ums = 4
     \<and> hd ums \<in> set ums
     \<and> model_id (um_recommendations (hd ums)) = ''m''"
proof -
  from user_messages_then_one_mail_message
    [of example_format_2f "''m''" "''h.html''" example_top_df example_sim_df example_raw_df 4 1800]
  obtain ums mail where eq: "create_messages example_format_2f ''m'' ''h.html''
                  example_top_df example_sim_df example_raw_df 4 1800
                  = map UserMessage ums @ [MailMessage mail]"
    and d: "distinct (map um_user_id ums)"
    and s: "set (map um_user_id ums)
              = user_id ` (set example_top_df \<union> set example_sim_df \<union> set example_raw_df)"
    and m: "\<forall>m \<in> set ums. model_id (um_recommendations m) = ''m''
            \<and> model_url (um_recommendations m) = ''http://michael.metabrainz.org/'' @ ''h.html''"
    by blast
  have "user_id ` (set example_top_df \<union> set example_sim_df \<union> set example_raw_df)
          = {10, 11, 12, 13}"
    by (auto simp: example_top_df_def example_sim_df_def example_raw_df_def)
  with s have "card (set (map um_user_id ums)) = 4" by simp
  with d have len: "length ums = 4"
    using distinct_card [of "map um_user_id ums"] by simp
  then have "ums \<noteq> []" by auto
  then have "hd ums \<in> set ums" by simp
  with m eq len show ?thesis by blast
qed

theorem user_counts_are_distinct_user_counts_witness:
  "distinct (map user_id example_top_df) \<and> distinct (map user_id example_sim_df)
   \<and> distinct (map user_id example_raw_df)
   \<and> (\<exists>ums mail. create_messages example_format_2f ''m'' ''h.html''
                  example_top_df example_sim_df example_raw_df 4 1800
                  = map UserMessage ums @ [MailMessage mail]
        \<and> top_artist_user_count mail = 2
        \<and> similar_artist_user_count mail = 1
        \<and> raw_user_count mail = 3)"
proof -
  have d: "distinct (map user_id example_top_df)" "distinct (map user_id example_sim_df)"
    "distinct (map user_id example_raw_df)"
    by (simp_all add: example_top_df_def example_sim_df_def example_raw_df_def)
  have c: "card (user_id ` set example_top_df) = 2" "card (user_id ` set example_sim_df) = 1"
    "card (user_id ` set example_raw_df) = 3"
    by (simp_all add: example_top_df_def example_sim_df_def example_raw_df_def)
  from user_counts_are_distinct_user_counts [OF d, of example_format_2f "''m''" "''h.html''" 4 1800]
  show ?thesis using d unfolding c by blast
qed

lemma example_dup_messages:
  "create_messages example_format_2f ''m'' ''h.html'' example_dup_df [] [] 4 1800 =
    [UserMessage
       \<lparr>um_user_id = 10,
        um_type = ''cf_recommendations_recording_recommendations'',
        um_recommendations =
          \<lparr>top_artist = [\<lparr>recording_mbid = ''B'', score = Num 0.5, latest_listened_at = None\<rparr>],
           similar_artist = [], raw = [], model_id = ''m'',
           model_url = ''http://michael.metabrainz.org/h.html''\<rparr>\<rparr>,
     MailMessage
       \<lparr>mm_type = ''cf_recommendations_recording_mail'', active_user_count = 4,
        top_artist_user_count = 2, similar_artist_user_count = 0,
        raw_user_count = 0, total_time = ''0.50''\<rparr>]"
  by code_simp

theorem duplicate_rows_counted_per_row_last_row_kept_witness:
  "\<not> distinct (map user_id example_dup_df)
   \<and> (\<exists>ums mail. create_messages example_format_2f ''m'' ''h.html'' example_dup_df [] [] 4 1800
                  = map UserMessage ums @ [MailMessage mail]
        \<and> top_artist_user_count mail = 2
        \<and> card (user_id ` set example_dup_df) < top_artist_user_count mail
        \<and> (\<exists>m \<in> set ums. um_user_id m \<in> user_id ` set example_dup_df
              \<and> top_artist (um_recommendations m)
                  = [\<lparr>recording_mbid = ''B'', score = Num 0.5, latest_listened_at = None\<rparr>]))"
proof -
  have nd: "\<not> distinct (map user_id example_dup_df)"
    by (simp add: example_dup_df_def)
  from duplicate_rows_counted_per_row_last_row_kept
    [of example_format_2f "''m''" "''h.html''" example_dup_df "[]" "[]" 4 1800]
  obtain ums mail where eq: "create_messages example_format_2f ''m'' ''h.html'' example_dup_df [] [] 4 1800
                  = map UserMessage ums @ [MailMessage mail]"
    and n: "top_artist_user_count mail = length example_dup_df"
    and l: "\<forall>m \<in> set ums. um_user_id m \<in> user_id ` set example_dup_df \<longrightarrow>
              top_artist (um_recommendations m)
                = recs (last (filter (\<lambda>r. user_id r = um_user_id m) example_dup_df))"
    and x: "card (user_id ` set example_dup_df) < top_artist_user_count mail
            \<longleftrightarrow> \<not> distinct (map user_id example_dup_df)"
    by blast
  from eq have "map UserMessage ums @ [MailMessage mail] =
      [UserMessage
       \<lparr>um_user_id = 10,
        um_type = ''cf_recommendations_recording_recommendations'',
        um_recommendations =
          \<lparr>top_artist = [\<lparr>recording_mbid = ''B'', score = Num 0.5, latest_listened_at = None\<rparr>],
           similar_artist = [], raw = [], model_id = ''m'',
           model_url = ''http://michael.metabrainz.org/h.html''\<rparr>\<rparr>] @
      [MailMessage
       \<lparr>mm_type = ''cf_recommendations_recording_mail'', active_user_count = 4,
        top_artist_user_count = 2, similar_artist_user_count = 0,
        raw_user_count = 0, total_time = ''0.50''\<rparr>]"
    by (simp add: example_dup_messages)
  then have "map UserMessage ums = [UserMessage
       \<lparr>um_user_id = 10,
        um_type = ''cf_recommendations_recording_recommendations'',
        um_recommendations =
          \<lparr>top_artist = [\<lparr>recording_mbid = ''B'', score = Num 0.5, latest_listened_at = None\<rparr>],
           similar_artist = [], raw = [], model_id = ''m'',
           model_url = ''http://michael.metabrainz.org/h.html''\<rparr>\<rparr>]"
    by (simp only: append_same_eq append1_eq_conv)
  then obtain m where ums: "ums = [m]" and um: "um_user_id m = 10"
    by (cases ums) auto
  have in10: "um_user_id m \<in> user_id ` set example_dup_df"
    by (simp add: um example_dup_df_def)
  with l ums have "top_artist (um_recommendations m)
      = recs (last (filter (\<lambda>r. user_id r = um_user_id m) example_dup_df))"
    by simp
  then have t: "top_artist (um_recommendations m)
      = [\<lparr>recording_mbid = ''B'', score = Num 0.5, latest_listened_at = None\<rparr>]"
    by (simp add: um example_dup_df_def)
  have n2: "top_artist_user_count mail = 2"
    using n by (simp add: example_dup_df_def)
  from nd x have c: "card (user_id ` set example_dup_df) < top_artist_user_count mail" by simp
  from ums in10 t have "\<exists>m \<in> set ums. um_user_id m \<in> user_id ` set example_dup_df
              \<and> top_artist (um_recommendations m)
                  = [\<lparr>recording_mbid = ''B'', score = Num 0.5, latest_listened_at = None\<rparr>]"
    by simp
  with nd eq n2 c show ?thesis by blast
qed

section \<open>Candidate restriction and the raw path\<close>

lemma get_candidate_set_rdd_for_user_eq:
  "get_candidate_set_rdd_for_user df users =
     (if restrict df (requested_users users) = []
      then Inl (EmptyDataframeExcpetion ''Empty Candidate sets!'')
      else Inr (restrict df (requested_users users)))"
proof (cases users)
  case None
  then show ?thesis
    by (simp add: get_candidate_set_rdd_for_user_def is_empty_dataframe_def restrict_def
        requested_users_def)
next
  case (Some us)
  then show ?thesis
    by (cases "us = []")
       (simp_all add: get_candidate_set_rdd_for_user_def is_empty_dataframe_def restrict_def
         requested_users_def)
qed

text \<open>
  Claim C7. \<open>get_candidate_set_rdd_for_user\<close> raises if and only if the restricted set is
  empty, and then it raises \<open>EmptyDataframeExcpetion\<close>; otherwise it returns the
  restricted set, which is the whole projection on (spark\_user\_id, recording\_id) when no user
  is requested, and the projection of the rows of the requested users otherwise.
\<close>

theorem candidate_restriction_fails_iff_empty:
  "((\<exists>e. get_candidate_set_rdd_for_user df users = Inl e)
       \<longleftrightarrow> restrict df (requested_users users) = [])
   \<and> (get_candidate_set_rdd_for_user df users = Inl e
       \<longrightarrow> e = EmptyDataframeExcpetion ''Empty Candidate sets!'')
   \<and> (get_candidate_set_rdd_for_user df users = Inr r
       \<longrightarrow> r = restrict df (requested_users users))
   \<and> (requested_users users = {} \<longrightarrow> restrict df (requested_users users) = map select_pair df)
   \<and> (requested_users users \<noteq> {} \<longrightarrow> restrict df (requested_users users)
         = map select_pair (filter (\<lambda>c. cs_user_id c \<in> requested_users users) df))"
proof -
  have "(\<exists>e. get_candidate_set_rdd_for_user df users = Inl e)
       \<longleftrightarrow> restrict df (requested_users users) = []"
    by (simp add: get_candidate_set_rdd_for_user_eq)
  moreover have "get_candidate_set_rdd_for_user df users = Inl e
       \<longrightarrow> e = EmptyDataframeExcpetion ''Empty Candidate sets!''"
    by (simp add: get_candidate_set_rdd_for_user_eq)
  moreover have "get_candidate_set_rdd_for_user df users = Inr r
       \<longrightarrow> r = restrict df (requested_users users)"
    by (auto simp: get_candidate_set_rdd_for_user_eq)
  moreover have "requested_users users = {}
       \<longrightarrow> restrict df (requested_users users) = map select_pair df"
    by (simp add: restrict_def)
  moreover have "requested_users users \<noteq> {} \<longrightarrow> restrict df (requested_users users)
         = map select_pair (filter (\<lambda>c. cs_user_id c \<in> requested_users users) df)"
    by (simp add: restrict_def)
  ultimately show ?thesis by blast
qed

theorem candidate_restriction_fails_iff_empty_witness:
  "restrict example_candidate_set (requested_users (Some [99])) = []
   \<and> get_candidate_set_rdd_for_user example_candidate_set (Some [99])
        = Inl (EmptyDataframeExcpetion ''Empty Candidate sets!'')
   \<and> requested_users (Some []) = {}
   \<and> get_candidate_set_rdd_for_user example_candidate_set (Some [])
        = Inr (map select_pair example_candidate_set)
   \<and> requested_users (Some [11]) \<noteq> {}
   \<and> get_candidate_set_rdd_for_user example_candidate_set (Some [11])
        = Inr [\<lparr>cp_spark_user_id = 2, cp_recording_id = 3\<rparr>]"
proof -
  have e: "restrict example_candidate_set (requested_users (Some [99])) = []"
    by (simp add: restrict_def requested_users_def example_candidate_set_def)
  from candidate_restriction_fails_iff_empty [of example_candidate_set "Some [99]"] e
  obtain x where x: "get_candidate_set_rdd_for_user example_candidate_set (Some [99]) = Inl x"
    by blast
  with candidate_restriction_fails_iff_empty [of example_candidate_set "Some [99]" x]
  have 1: "get_candidate_set_rdd_for_user example_candidate_set (Some [99])
        = Inl (EmptyDataframeExcpetion ''Empty Candidate sets!'')"
    by simp
  have r0: "requested_users (Some []) = {}" and r1: "requested_users (Some [11]) \<noteq> {}"
    by (simp_all add: requested_users_def)
  have ne: "restrict example_candidate_set (requested_users (Some [])) \<noteq> []"
    "restrict example_candidate_set (requested_users (Some [11])) \<noteq> []"
    by (simp_all add: restrict_def requested_users_def example_candidate_set_def)
  have 2: "get_candidate_set_rdd_for_user example_candidate_set (Some [])
        = Inr (map select_pair example_candidate_set)"
  proof (cases "get_candidate_set_rdd_for_user example_candidate_set (Some [])")
    case (Inl a)
    with candidate_restriction_fails_iff_empty [of example_candidate_set "Some []"] ne(1)
    show ?thesis by blast
  next
    case (Inr b)
    with candidate_restriction_fails_iff_empty [of example_candidate_set "Some []" _ b] r0
    show ?thesis by simp
  qed
  have 3: "get_candidate_set_rdd_for_user example_candidate_set (Some [11])
        = Inr [\<lparr>cp_spark_user_id = 2, cp_recording_id = 3\<rparr>]"
  proof (cases "get_candidate_set_rdd_for_user example_candidate_set (Some [11])")
    case (Inl a)
    with candidate_restriction_fails_iff_empty [of example_candidate_set "Some [11]"] ne(2)
    show ?thesis by blast
  next
    case (Inr b)
    with candidate_restriction_fails_iff_empty [of example_candidate_set "Some [11]" _ b] r1
    have "b = map select_pair (filter (\<lambda>c. cs_user_id c \<in> requested_users (Some [11])) example_candidate_set)"
      by simp
    with Inr show ?thesis
      by (simp add: requested_users_def example_candidate_set_def select_pair_def)
  qed
  from e 1 r0 2 r1 3 show ?thesis by blast
qed

lemma process_recommendations_Nil: "process_recommendations S [] limit = []"
  by (simp add: process_recommendations_def group_by_user_id_def where_rank_def
      left_join_discovery_def join_user_def join_recording_def ranked_recommendation_def)

text \<open>
  Claim C3 as stated fails: with a model whose \<open>recommendForUserSubset\<close> returns no row,
  the flattened set is empty and \<open>get_raw_recommendations\<close> returns the empty dataframe,
  not \<open>RecommendationsNotGeneratedException\<close>.
\<close>

theorem raw_recommendations_empty_counterexample:
  "recommendForUserSubset example_model (map u_spark_user_id (user example_session)) 2 = Inr []
   \<and> explode [] = []
   \<and> get_raw_recommendations example_session example_model 2 (user example_session) = Inr []
   \<and> get_raw_recommendations example_session example_model 2 (user example_session)
       \<noteq> Inl (RecommendationsNotGeneratedException ''Recommendations not generated!'')"
  by (simp add: get_raw_recommendations_def example_model_def explode_def and_then_def
      process_recommendations_Nil)

text \<open>
  Claim C3, amended. When the model's \<open>recommendForUserSubset\<close> returns and the flattened
  predictions are empty, \<open>get_raw_recommendations\<close> does not fail: it returns the empty
  dataframe. \<open>RecommendationsNotGeneratedException\<close> is raised by
  \<open>generate_recommendations\<close>, the candidate set path, when the model returns no row.
\<close>

theorem raw_recommendations_empty_returns_empty:
  "(recommendForUserSubset model (map u_spark_user_id users_df) limit = Inr raw_recommendations
      \<and> explode raw_recommendations = []
      \<longrightarrow> get_raw_recommendations S model limit users_df = Inr [])
   \<and> (transform model candidate_set = Inr []
      \<longrightarrow> generate_recommendations S candidate_set model limit
           = Inl (RecommendationsNotGeneratedException ''Recommendations not generated!''))"
  by (simp add: get_raw_recommendations_def generate_recommendations_def is_empty_dataframe_def
      process_recommendations_Nil and_then_def)

theorem raw_recommendations_empty_returns_empty_witness:
  "recommendForUserSubset example_model (map u_spark_user_id (user example_session)) 2 = Inr []
   \<and> explode [] = []
   \<and> get_raw_recommendations example_session example_model 2 (user example_session) = Inr []
   \<and> transform example_model [] = Inr []
   \<and> generate_recommendations example_session [] example_model 2
        = Inl (RecommendationsNotGeneratedException ''Recommendations not generated!'')"
proof -
  have 1: "recommendForUserSubset example_model (map u_spark_user_id (user example_session)) 2
             = Inr []"
    by (simp add: example_model_def)
  have 2: "explode [] = []"
    by (simp add: explode_def)
  have 3: "transform example_model [] = Inr []"
    by (simp add: example_model_def)
  from raw_recommendations_empty_returns_empty
    [of example_model "user example_session" 2 "[]" example_session "[]"] 1 2 3
  show ?thesis by simp
qed

section \<open>Failure of a run\<close>

lemma and_then_Inl: "and_then (Inl e) f = Inl e"
  by (simp add: and_then_def)

lemma and_then_Inr: "and_then (Inr v) f = f v"
  by (simp add: and_then_def)

lemma get_user_name_and_user_id_Some:
  "get_user_name_and_user_id top_cs (Some us) =
     (if active_user_set top_cs (set us) = []
      then Inl (EmptyDataframeExcpetion ''No active users found!'')
      else Inr (active_user_set top_cs (set us)))"
  by (simp add: get_user_name_and_user_id_def active_user_set_def is_empty_dataframe_def Let_def)

lemma get_user_name_and_user_id_None:
  "get_user_name_and_user_id top_cs None = Inl TypeError"
  by (simp add: get_user_name_and_user_id_def)

lemma restrict_eq_Nil_iff: "restrict cs R = [] \<longleftrightarrow> active_user_set cs R = []"
  by (simp add: restrict_def active_user_set_def)

lemma get_recommendations_for_candidate_set_eq:
  "get_recommendations_for_candidate_set S model cs limit users =
     (if restrict cs (requested_users users) = []
      then Inl (EmptyDataframeExcpetion ''Empty Candidate sets!'')
      else case transform model (restrict cs (requested_users users)) of
             Inl e \<Rightarrow> Inl e
           | Inr scored \<Rightarrow>
               if scored = []
               then Inl (RecommendationsNotGeneratedException ''Recommendations not generated!'')
               else Inr (process_recommendations S scored limit))"
  by (simp add: get_recommendations_for_candidate_set_def get_candidate_set_rdd_for_user_eq
      generate_recommendations_def is_empty_dataframe_def and_then_def split: sum.splits)

lemma get_raw_recommendations_eq:
  "get_raw_recommendations S model limit users_df =
     (case recommendForUserSubset model (map u_spark_user_id users_df) limit of
        Inl e \<Rightarrow> Inl e
      | Inr raw_recommendations \<Rightarrow>
          Inr (process_recommendations S (explode raw_recommendations) limit))"
  by (simp add: get_raw_recommendations_def and_then_def split: sum.splits)

lemma get_most_recent_model_meta_eq:
  "get_most_recent_model_meta W =
     (case model_metadata W of
        Inl e \<Rightarrow> Inl e
      | Inr [] \<Rightarrow> Inl IndexError
      | Inr (m # ms) \<Rightarrow> Inr (md_model_id (most_recent m ms), md_model_html_file (most_recent m ms)))"
  by (simp add: get_most_recent_model_meta_def and_then_def Let_def split: sum.splits list.splits)

text \<open>
  Claim C9. \<open>main\<close> runs its stages in order: starting the session, the four reads from
  HDFS, the model metadata, loading the model, the active users, the top artist and the
  similar artist recommendations, the raw recommendations. Each way a stage can fail is given
  by what the stage reads: a read or the model load raises; the metadata are empty; no active
  user is found; the similar artist candidates of the requested users are empty; the model
  raises on the candidates or returns no prediction for them; the model raises on the raw
  recommendations. In each case, the stages before having succeeded, \<open>main\<close> returns
  \<open>Inl\<close> of that one error and no message. Messages exist only when every stage has
  succeeded, and then they are those of \<open>create_messages\<close>. (The top artist candidates of
  the requested users are not empty once an active user is found.)
\<close>

theorem main_fatal_error_no_messages:
  "(init_spark_session W = Some e
        \<longrightarrow> main W top_limit sim_limit raw_limit users = Inl e)
   \<and> (init_spark_session W = None \<longrightarrow>
     (recordings_dataframe W = Inl e
        \<longrightarrow> main W top_limit sim_limit raw_limit users = Inl e)
   \<and> (\<forall>recordings_df. recordings_dataframe W = Inr recordings_df \<longrightarrow>
     (top_artist_candidate_set W = Inl e
        \<longrightarrow> main W top_limit sim_limit raw_limit users = Inl e)
   \<and> (\<forall>top_cs. top_artist_candidate_set W = Inr top_cs \<longrightarrow>
     (similar_artist_candidate_set W = Inl e
        \<longrightarrow> main W top_limit sim_limit raw_limit users = Inl e)
   \<and> (\<forall>sim_cs. similar_artist_candidate_set W = Inr sim_cs \<longrightarrow>
     (recording_discovery_dataframe W = Inl e
        \<longrightarrow> main W top_limit sim_limit raw_limit users = Inl e)
   \<and> (\<forall>discovery_df. recording_discovery_dataframe W = Inr discovery_df \<longrightarrow>
     (model_metadata W = Inl e
        \<longrightarrow> main W top_limit sim_limit raw_limit users = Inl e)
   \<and> (model_metadata W = Inr []
        \<longrightarrow> main W top_limit sim_limit raw_limit users = Inl IndexError)
   \<and> (\<forall>m ms. model_metadata W = Inr (m # ms) \<longrightarrow>
     (ALSModel_load W (md_model_id (most_recent m ms)) = Inl e
        \<longrightarrow> main W top_limit sim_limit raw_limit users = Inl e)
   \<and> (\<forall>model. ALSModel_load W (md_model_id (most_recent m ms)) = Inr model \<longrightarrow>
     (users = None
        \<longrightarrow> main W top_limit sim_limit raw_limit users = Inl TypeError)
   \<and> (\<forall>us. users = Some us \<longrightarrow>
     (active_user_set top_cs (set us) = []
        \<longrightarrow> main W top_limit sim_limit raw_limit users = Inl (EmptyDataframeExcpetion ''No active users found!''))
   \<and> (active_user_set top_cs (set us) \<noteq> [] \<longrightarrow>
     (transform model (restrict top_cs (set us)) = Inl e
        \<longrightarrow> main W top_limit sim_limit raw_limit users = Inl e)
   \<and> (transform model (restrict top_cs (set us)) = Inr []
        \<longrightarrow> main W top_limit sim_limit raw_limit users = Inl (RecommendationsNotGeneratedException ''Recommendations not generated!''))
   \<and> (\<forall>top_recommendations.
        transform model (restrict top_cs (set us)) = Inr top_recommendations
        \<and> top_recommendations \<noteq> [] \<longrightarrow>
     (restrict sim_cs (set us) = []
        \<longrightarrow> main W top_limit sim_limit raw_limit users = Inl (EmptyDataframeExcpetion ''Empty Candidate sets!''))
   \<and> (restrict sim_cs (set us) \<noteq> [] \<longrightarrow>
     (transform model (restrict sim_cs (set us)) = Inl e
        \<longrightarrow> main W top_limit sim_limit raw_limit users = Inl e)
   \<and> (transform model (restrict sim_cs (set us)) = Inr []
        \<longrightarrow> main W top_limit sim_limit raw_limit users = Inl (RecommendationsNotGeneratedException ''Recommendations not generated!''))
   \<and> (\<forall>sim_recommendations.
        transform model (restrict sim_cs (set us)) = Inr sim_recommendations
        \<and> sim_recommendations \<noteq> [] \<longrightarrow>
     (recommendForUserSubset model (map u_spark_user_id (active_user_set top_cs (set us))) raw_limit
          = Inl e
        \<longrightarrow> main W top_limit sim_limit raw_limit users = Inl e)
   \<and> (\<forall>raw_recommendations.
        recommendForUserSubset model (map u_spark_user_id (active_user_set top_cs (set us))) raw_limit
          = Inr raw_recommendations \<longrightarrow>
     main W top_limit sim_limit raw_limit users
       = Inr (create_messages (py_format_2f W) (md_model_id (most_recent m ms))
                (md_model_html_file (most_recent m ms))
                (process_recommendations
                   (run_session W recordings_df (active_user_set top_cs (set us)) discovery_df)
                   top_recommendations top_limit)
                (process_recommendations
                   (run_session W recordings_df (active_user_set top_cs (set us)) discovery_df)
                   sim_recommendations sim_limit)
                (process_recommendations
                   (run_session W recordings_df (active_user_set top_cs (set us)) discovery_df)
                   (explode raw_recommendations) raw_limit)
                (length (active_user_set top_cs (set us))) (monotonic W 4 - monotonic W 0)))))))))))))))"
  by (simp add: main_def and_then_Inl and_then_Inr get_most_recent_model_meta_eq load_model_def
      get_user_name_and_user_id_Some get_user_name_and_user_id_None get_recommendations_for_candidate_set_eq
      get_raw_recommendations_eq requested_users_def run_session_def Let_def
      restrict_eq_Nil_iff [of _ "set us" for us])

lemma example_world_fields:
  "init_spark_session example_world = None"
  "recordings_dataframe example_world = Inr (recording example_session)"
  "top_artist_candidate_set example_world = Inr example_candidate_set"
  "similar_artist_candidate_set example_world = Inr example_candidate_set"
  "recording_discovery_dataframe example_world = Inr []"
  "model_metadata example_world = Inr [example_meta]"
  "ALSModel_load example_world mid = Inr example_model"
  "py_format_2f example_world = example_format_2f"
  "monotonic example_world 4 - monotonic example_world 0 = 1800"
  by (simp_all add: example_world_def)

lemma example_world_silent_fields:
  "init_spark_session example_world_silent = None"
  "recordings_dataframe example_world_silent = Inr (recording example_session)"
  "top_artist_candidate_set example_world_silent = Inr example_candidate_set"
  "similar_artist_candidate_set example_world_silent = Inr example_candidate_set"
  "recording_discovery_dataframe example_world_silent = Inr []"
  "model_metadata example_world_silent = Inr [example_meta]"
  "ALSModel_load example_world_silent mid = Inr example_silent_model"
  by (simp_all add: example_world_silent_def example_world_def)

lemma example_world_no_similar_fields:
  "init_spark_session example_world_no_similar = None"
  "recordings_dataframe example_world_no_similar = Inr (recording example_session)"
  "top_artist_candidate_set example_world_no_similar = Inr example_candidate_set"
  "similar_artist_candidate_set example_world_no_similar = Inr []"
  "recording_discovery_dataframe example_world_no_similar = Inr []"
  "model_metadata example_world_no_similar = Inr [example_meta]"
  "ALSModel_load example_world_no_similar mid = Inr example_model"
  by (simp_all add: example_world_no_similar_def example_world_def)

lemma example_meta_fields:
  "md_model_id example_meta = ''m''" "md_model_html_file example_meta = ''h.html''"
  by (simp_all add: example_meta_def)

lemma example_active_users:
  "active_user_set example_candidate_set {99} = []"
  "active_user_set example_candidate_set {} = example_users_df"
  "example_users_df \<noteq> []"
  "length example_users_df = 2"
  by (simp_all add: active_user_set_def example_candidate_set_def select_user_def
      example_users_df_def)

lemma example_restricted:
  "restrict example_candidate_set {} = example_pairs"
  "restrict [] {} = []"
  "example_pairs \<noteq> []"
  by (simp_all add: restrict_def example_pairs_def example_candidate_set_def)

lemma example_transform:
  "transform example_model example_pairs = Inr example_scored"
  "example_scored \<noteq> []"
  "transform example_silent_model cs = Inr []"
  by (simp_all add: example_model_def example_silent_model_def example_pairs_def
      example_candidate_set_def select_pair_def example_scored_def)

lemma example_recommendForUserSubset:
  "recommendForUserSubset example_model spark_user_ids 2 = Inr []"
  "recommendForUserSubset example_model spark_user_ids 0 = Inl Py4JJavaError"
  by (simp_all add: example_model_def)

lemma example_run_recommendations:
  "process_recommendations example_run_session example_scored 2 = example_run_df"
  by code_simp

lemma example_run_raw:
  "process_recommendations S (explode []) limit = []"
  by (simp add: explode_def process_recommendations_Nil)

theorem main_fatal_error_no_messages_witness:
  "main example_world 2 2 2 (Some [99])
     = Inl (EmptyDataframeExcpetion ''No active users found!'')
   \<and> main example_world_no_similar 2 2 2 (Some [])
     = Inl (EmptyDataframeExcpetion ''Empty Candidate sets!'')
   \<and> main example_world_silent 2 2 2 (Some [])
     = Inl (RecommendationsNotGeneratedException ''Recommendations not generated!'')
   \<and> main example_world 2 2 0 (Some []) = Inl Py4JJavaError
   \<and> main example_world 2 2 2 (Some [])
     = Inr (create_messages example_format_2f ''m'' ''h.html'' example_run_df example_run_df []
              2 1800)"
proof -
  note run = example_run_recommendations [unfolded example_run_session_def]
  from main_fatal_error_no_messages [of example_world _ 2 2 2 "Some [99]"]
  have 1: "main example_world 2 2 2 (Some [99])
     = Inl (EmptyDataframeExcpetion ''No active users found!'')"
    by (simp add: example_world_fields example_active_users)
  from main_fatal_error_no_messages [of example_world_no_similar _ 2 2 2 "Some []"]
  have 2: "main example_world_no_similar 2 2 2 (Some [])
     = Inl (EmptyDataframeExcpetion ''Empty Candidate sets!'')"
    by (simp add: example_world_no_similar_fields example_active_users example_restricted
        example_transform)
  from main_fatal_error_no_messages [of example_world_silent _ 2 2 2 "Some []"]
  have 3: "main example_world_silent 2 2 2 (Some [])
     = Inl (RecommendationsNotGeneratedException ''Recommendations not generated!'')"
    by (simp add: example_world_silent_fields example_active_users example_restricted
        example_transform)
  from main_fatal_error_no_messages [of example_world Py4JJavaError 2 2 0 "Some []"]
  have 4: "main example_world 2 2 0 (Some []) = Inl Py4JJavaError"
    by (simp add: example_world_fields example_active_users example_restricted
        example_transform example_recommendForUserSubset)
  from main_fatal_error_no_messages [of example_world _ 2 2 2 "Some []"]
  have 5: "main example_world 2 2 2 (Some [])
     = Inr (create_messages example_format_2f ''m'' ''h.html'' example_run_df example_run_df []
              2 1800)"
    by (simp add: example_world_fields example_meta_fields example_active_users
        example_restricted example_transform example_recommendForUserSubset run example_run_raw)
  from 1 2 3 4 5 show ?thesis by simp
qed

section \<open>Length and uniqueness of a ranked list\<close>

lemma process_recommendations_joined:
  "process_recommendations S R limit = group_by_user_id S (joined S limit (ranked_recommendation R))"
  by (simp add: process_recommendations_def joined_def)

lemma joined_Nil: "joined S limit [] = []"
  by (simp add: joined_def where_rank_def left_join_discovery_def join_user_def join_recording_def)

lemma joined_Cons: "joined S limit (rm # rms) = joined S limit [rm] @ joined S limit rms"
  by (simp add: joined_def where_rank_def left_join_discovery_def join_user_def join_recording_def)

lemma concat_concat_map:
  "concat (concat (map (\<lambda>x. map (g x) (h x)) xs)) = concat (map (\<lambda>x. concat (map (g x) (h x))) xs)"
  by (induction xs) simp_all

lemma joined_single:
  "joined S limit [rm] =
     (if rm_rank rm \<le> limit
      then concat (map (\<lambda>r. concat (map (\<lambda>u. map (\<lambda>d. (rm, r, u, d))
                      (discovery_matches S (u_user_id u) (r_recording_mbid r)))
                    (filter (\<lambda>u. u_spark_user_id u = rm_spark_user_id rm) (user S))))
                  (filter (\<lambda>r. r_recording_id r = rm_recording_id rm) (recording S)))
      else [])"
  by (simp add: joined_def where_rank_def left_join_discovery_def join_user_def join_recording_def
      map_concat filter_concat o_def split_beta concat_map_singleton concat_concat_map)

lemma length_discovery_matches:
  "length (filter (\<lambda>d. rd_user_id d = uid \<and> rd_recording_mbid d = mbid) (recording_discovery S)) \<le> 1
     \<Longrightarrow> length (discovery_matches S uid mbid) = 1"
  by (auto simp: discovery_matches_def Let_def le_Suc_eq)

lemma joined_single_from:
  assumes "j \<in> set (joined S limit [rm])"
  shows "\<exists>r u d. j = (rm, r, u, d) \<and> r \<in> set (recording S)
           \<and> r_recording_id r = rm_recording_id rm \<and> u \<in> set (user S)
           \<and> u_spark_user_id u = rm_spark_user_id rm \<and> rm_rank rm \<le> limit"
  using assms by (auto simp: joined_single split: if_splits)

lemma joined_from:
  assumes "j \<in> set (joined S limit rms)"
  shows "\<exists>rm r u d. j = (rm, r, u, d) \<and> rm \<in> set rms \<and> r \<in> set (recording S)
           \<and> r_recording_id r = rm_recording_id rm \<and> u \<in> set (user S)
           \<and> u_spark_user_id u = rm_spark_user_id rm \<and> rm_rank rm \<le> limit"
  using assms
proof (induction rms)
  case Nil
  then show ?case by (simp add: joined_Nil)
next
  case (Cons rm rms)
  from Cons.prems have "j \<in> set (joined S limit [rm]) \<or> j \<in> set (joined S limit rms)"
    by (simp add: joined_Cons [of S limit rm rms])
  then show ?case
  proof
    assume "j \<in> set (joined S limit [rm])"
    from joined_single_from [OF this] show ?thesis by auto
  next
    assume "j \<in> set (joined S limit rms)"
    from Cons.IH [OF this] show ?thesis by auto
  qed
qed

lemma length_joined_single_of_user:
  assumes u1: "filter (\<lambda>u. u_spark_user_id u = s) (user S) = [urow]"
    and u2: "u_user_id urow = uid"
    and r1: "length (filter (\<lambda>r. r_recording_id r = rm_recording_id rm) (recording S)) = 1"
    and d1: "\<forall>mbid. length (filter (\<lambda>d. rd_user_id d = uid \<and> rd_recording_mbid d = mbid)
                              (recording_discovery S)) \<le> 1"
    and s: "rm_spark_user_id rm = s"
  shows "length (filter (\<lambda>j. joined_user_id j = uid) (joined S limit [rm]))
           = (if rm_rank rm \<le> limit then 1 else 0)"
proof -
  from r1 obtain r where r: "filter (\<lambda>r. r_recording_id r = rm_recording_id rm) (recording S) = [r]"
    by (auto simp: length_Suc_conv)
  from d1 have "length (discovery_matches S uid (r_recording_mbid r)) = 1"
    by (simp add: length_discovery_matches)
  then obtain d where d: "discovery_matches S uid (r_recording_mbid r) = [d]"
    by (auto simp: length_Suc_conv)
  show ?thesis
    by (simp add: joined_single r s u1 u2 d joined_user_id_def)
qed

lemma length_joined_single_of_other:
  assumes u3: "\<forall>u \<in> set (user S). u_user_id u = uid \<longrightarrow> u_spark_user_id u = s"
    and s: "rm_spark_user_id rm \<noteq> s"
  shows "filter (\<lambda>j. joined_user_id j = uid) (joined S limit [rm]) = []"
proof -
  have "joined_user_id j \<noteq> uid" if "j \<in> set (joined S limit [rm])" for j
  proof -
    from joined_single_from [OF that] obtain r u d where j: "j = (rm, r, u, d)"
      and u: "u \<in> set (user S)" "u_spark_user_id u = rm_spark_user_id rm" by blast
    with u3 s show ?thesis by (auto simp: joined_user_id_def)
  qed
  then show ?thesis by (auto simp: filter_empty_conv)
qed

lemma length_joined_of_user:
  assumes u1: "filter (\<lambda>u. u_spark_user_id u = s) (user S) = [urow]"
    and u2: "u_user_id urow = uid"
    and u3: "\<forall>u \<in> set (user S). u_user_id u = uid \<longrightarrow> u_spark_user_id u = s"
    and r1: "\<forall>rm \<in> set rms. rm_spark_user_id rm = s \<longrightarrow>
               length (filter (\<lambda>r. r_recording_id r = rm_recording_id rm) (recording S)) = 1"
    and d1: "\<forall>mbid. length (filter (\<lambda>d. rd_user_id d = uid \<and> rd_recording_mbid d = mbid)
                              (recording_discovery S)) \<le> 1"
  shows "length (filter (\<lambda>j. joined_user_id j = uid) (joined S limit rms))
           = length (filter (\<lambda>rm. rm_rank rm \<le> limit) (filter (\<lambda>rm. rm_spark_user_id rm = s) rms))"
  using r1
proof (induction rms)
  case Nil
  show ?case by (simp add: joined_Nil)
next
  case (Cons rm rms)
  from Cons have IH: "length (filter (\<lambda>j. joined_user_id j = uid) (joined S limit rms))
           = length (filter (\<lambda>rm. rm_rank rm \<le> limit) (filter (\<lambda>rm. rm_spark_user_id rm = s) rms))"
    by simp
  show ?case
  proof (cases "rm_spark_user_id rm = s")
    case True
    with Cons.prems have "length (filter (\<lambda>r. r_recording_id r = rm_recording_id rm) (recording S)) = 1"
      by simp
    from length_joined_single_of_user [OF u1 u2 this d1 True] IH True show ?thesis
      by (simp add: joined_Cons [of S limit rm rms])
  next
    case False
    from length_joined_single_of_other [OF u3 False] IH False show ?thesis
      by (simp add: joined_Cons [of S limit rm rms])
  qed
qed

lemma set_insert_desc: "set (insert_desc x ys) = insert x (set ys)"
  by (induction ys) auto

lemma set_order_by_prediction_desc: "set (order_by_prediction_desc xs) = set xs"
  unfolding order_by_prediction_desc_def by (induction xs) (simp_all add: set_insert_desc)

lemma length_insert_desc: "length (insert_desc x ys) = Suc (length ys)"
  by (induction ys) auto

lemma length_order_by_prediction_desc: "length (order_by_prediction_desc xs) = length xs"
  unfolding order_by_prediction_desc_def by (induction xs) (simp_all add: length_insert_desc)

lemma row_number_user: "rm \<in> set (row_number k xs) \<Longrightarrow> rm_spark_user_id rm \<in> spark_user_id ` set xs"
  by (induction xs arbitrary: k) auto

lemma row_number_recording:
  "rm \<in> set (row_number k xs) \<Longrightarrow> rm_recording_id rm \<in> recording_id ` set xs"
  by (induction xs arbitrary: k) auto

lemma block_user:
  "rm \<in> set (row_number k (order_by_prediction_desc (partition_by s R))) \<Longrightarrow> rm_spark_user_id rm = s"
  by (auto dest!: row_number_user simp: set_order_by_prediction_desc partition_by_def)

lemma filter_concat_blocks:
  "distinct us \<Longrightarrow> (\<forall>s' \<in> set us. \<forall>x \<in> set (f s'). key x = s')
     \<Longrightarrow> filter (\<lambda>x. key x = s) (concat (map f us)) = (if s \<in> set us then f s else [])"
proof (induction us)
  case Nil
  show ?case by simp
next
  case (Cons a us)
  then have IH: "filter (\<lambda>x. key x = s) (concat (map f us)) = (if s \<in> set us then f s else [])"
    by simp
  from Cons.prems have keys: "\<forall>x \<in> set (f a). key x = a" by simp
  show ?case
  proof (cases "a = s")
    case True
    with Cons.prems have "s \<notin> set us" by simp
    moreover from keys True have "filter (\<lambda>x. key x = s) (f a) = f a"
      by (simp add: filter_id_conv)
    ultimately show ?thesis using IH True by simp
  next
    case False
    with keys have "filter (\<lambda>x. key x = s) (f a) = []"
      by (auto simp: filter_empty_conv)
    with IH False show ?thesis by auto
  qed
qed

lemma filter_ranked_recommendation:
  "filter (\<lambda>rm. rm_spark_user_id rm = s) (ranked_recommendation R)
     = row_number 1 (order_by_prediction_desc (partition_by s R))"
proof -
  have "filter (\<lambda>rm. rm_spark_user_id rm = s) (ranked_recommendation R)
     = (if s \<in> set (remdups (map spark_user_id R))
        then row_number 1 (order_by_prediction_desc (partition_by s R)) else [])"
    unfolding ranked_recommendation_def
    by (rule filter_concat_blocks) (auto dest: block_user)
  moreover have "partition_by s R = []" if "s \<notin> set (remdups (map spark_user_id R))"
    using that by (auto simp: partition_by_def filter_empty_conv)
  ultimately show ?thesis
    by (auto simp: order_by_prediction_desc_def)
qed

lemma length_filter_rank:
  "length (filter (\<lambda>rm. rm_rank rm \<le> limit) (row_number k xs)) = min (length xs) (nat (limit - k + 1))"
proof (induction xs arbitrary: k)
  case Nil
  show ?case by simp
next
  case (Cons x xs)
  show ?case
  proof (cases "k \<le> limit")
    case True
    then have "nat (limit - k + 1) = Suc (nat (limit - (k + 1) + 1))" by simp
    with True Cons.IH [of "k + 1"] show ?thesis by simp
  next
    case False
    then have "nat (limit - k + 1) = 0" and "nat (limit - (k + 1) + 1) = 0" by simp_all
    with False Cons.IH [of "k + 1"] show ?thesis by simp
  qed
qed

lemma length_array_insert: "length (array_insert cmp x ys) = Suc (length ys)"
  by (induction ys) auto

lemma length_array_sort: "length (array_sort cmp xs) = length xs"
  unfolding array_sort_def by (induction xs) (simp_all add: length_array_insert)

lemma filter_group_by_user_id:
  "filter (\<lambda>row. user_id row = uid) (group_by_user_id S js)
     = (if uid \<in> joined_user_id ` set js
        then [\<lparr>user_id = uid, recs = array_sort score_cmp (collect_list S uid js)\<rparr>] else [])"
proof -
  have "filter (\<lambda>k. k = uid) ks = (if uid \<in> set ks then [uid] else [])" if "distinct ks" for ks :: "nat list"
    using that by (induction ks) auto
  from this [of "remdups (map joined_user_id js)"]
  show ?thesis
    by (simp add: group_by_user_id_def filter_map o_def)
qed

lemma length_collect_list:
  "length (collect_list S uid js) = length (filter (\<lambda>j. joined_user_id j = uid) js)"
  by (simp add: collect_list_def)

text \<open>
  Claim C1, amended. Take a user with exactly one row in the view \<open>user\<close>, whose user id no
  other row of the view carries, with \<open>n\<close> predictions each of whose recordings has exactly
  one row in the view \<open>recording\<close>, and with at most one row of \<open>recording_discovery\<close>
  per recording. Then the user's list has length \<open>min n limit\<close>, a negative limit counting as
  0; when that is 0 the result has no row for the user, otherwise exactly one.
\<close>

theorem ranked_list_length_min:
  assumes "filter (\<lambda>u. u_spark_user_id u = s) (user S) = [urow]"
    and "u_user_id urow = uid"
    and "\<forall>u \<in> set (user S). u_user_id u = uid \<longrightarrow> u_spark_user_id u = s"
    and "\<forall>p \<in> set recommendation_df. spark_user_id p = s \<longrightarrow>
           length (filter (\<lambda>r. r_recording_id r = recording_id p) (recording S)) = 1"
    and "\<forall>mbid. length (filter (\<lambda>d. rd_user_id d = uid \<and> rd_recording_mbid d = mbid)
                              (recording_discovery S)) \<le> 1"
    and "n = length (filter (\<lambda>p. spark_user_id p = s) recommendation_df)"
  shows "(min n (nat limit) = 0 \<longrightarrow>
            filter (\<lambda>row. user_id row = uid) (process_recommendations S recommendation_df limit) = [])
       \<and> (0 < min n (nat limit) \<longrightarrow>
            (\<exists>ranked_list. filter (\<lambda>row. user_id row = uid)
                              (process_recommendations S recommendation_df limit)
                            = [\<lparr>user_id = uid, recs = ranked_list\<rparr>]
                          \<and> length ranked_list = min n (nat limit)))"
proof -
  let ?js = "joined S limit (ranked_recommendation recommendation_df)"
  have rec: "\<forall>rm \<in> set (ranked_recommendation recommendation_df). rm_spark_user_id rm = s \<longrightarrow>
               length (filter (\<lambda>r. r_recording_id r = rm_recording_id rm) (recording S)) = 1"
  proof (intro ballI impI)
    fix rm assume rm: "rm \<in> set (ranked_recommendation recommendation_df)"
      and "rm_spark_user_id rm = s"
    then have "rm \<in> set (filter (\<lambda>rm. rm_spark_user_id rm = s) (ranked_recommendation recommendation_df))"
      by simp
    then have "rm \<in> set (row_number 1 (order_by_prediction_desc (partition_by s recommendation_df)))"
      by (simp only: filter_ranked_recommendation)
    then have "rm_recording_id rm \<in> recording_id ` set (partition_by s recommendation_df)"
      by (auto dest!: row_number_recording simp: set_order_by_prediction_desc)
    with assms(4) show "length (filter (\<lambda>r. r_recording_id r = rm_recording_id rm) (recording S)) = 1"
      by (auto simp: partition_by_def)
  qed
  have len: "length (filter (\<lambda>j. joined_user_id j = uid) ?js) = min n (nat limit)"
    unfolding length_joined_of_user [OF assms(1,2,3) rec assms(5)] filter_ranked_recommendation
      length_filter_rank
    by (simp add: length_order_by_prediction_desc partition_by_def assms(6))
  have mem: "uid \<in> joined_user_id ` set ?js \<longleftrightarrow> 0 < min n (nat limit)"
  proof -
    have "uid \<in> joined_user_id ` set ?js \<longleftrightarrow> filter (\<lambda>j. joined_user_id j = uid) ?js \<noteq> []"
      by (auto simp: filter_empty_conv)
    also have "\<dots> \<longleftrightarrow> 0 < length (filter (\<lambda>j. joined_user_id j = uid) ?js)"
      by simp
    finally show ?thesis by (simp only: len)
  qed
  show ?thesis
    unfolding process_recommendations_joined filter_group_by_user_id
    using mem len by (simp add: length_array_sort length_collect_list)
qed

lemma distinct_map_array_insert:
  "distinct (map f (array_insert cmp x ys)) = (f x \<notin> f ` set ys \<and> distinct (map f ys))"
  by (induction ys) (auto simp: set_array_insert)

lemma set_array_sort: "set (array_sort cmp xs) = set xs"
  unfolding array_sort_def by (induction xs) (simp_all add: set_array_insert)

lemma distinct_map_array_sort: "distinct (map f (array_sort cmp xs)) = distinct (map f xs)"
proof (induction xs)
  case Nil
  show ?case by (simp add: array_sort_def)
next
  case (Cons x xs)
  have "array_sort cmp (x # xs) = array_insert cmp x (array_sort cmp xs)"
    by (simp add: array_sort_def)
  with Cons show ?case
    by (simp add: distinct_map_array_insert set_array_sort)
qed

lemma distinct_map_insert_desc:
  "distinct (map f (insert_desc x ys)) = (f x \<notin> f ` set ys \<and> distinct (map f ys))"
  by (induction ys) (auto simp: set_insert_desc)

lemma distinct_map_order_by_prediction_desc:
  "distinct (map f (order_by_prediction_desc xs)) = distinct (map f xs)"
proof (induction xs)
  case Nil
  show ?case by (simp add: order_by_prediction_desc_def)
next
  case (Cons x xs)
  have "order_by_prediction_desc (x # xs) = insert_desc x (order_by_prediction_desc xs)"
    by (simp add: order_by_prediction_desc_def)
  with Cons show ?case
    by (simp add: distinct_map_insert_desc set_order_by_prediction_desc)
qed

lemma map_rm_pair_row_number:
  "map rm_pair (row_number k xs) = map (\<lambda>p. (spark_user_id p, recording_id p)) xs"
  by (induction xs arbitrary: k) (simp_all add: rm_pair_def)

lemma distinct_concat_blocks:
  "distinct us \<Longrightarrow> (\<forall>s \<in> set us. distinct (map g (f s)))
     \<Longrightarrow> (\<forall>s \<in> set us. \<forall>x \<in> set (f s). fst (g x) = s)
     \<Longrightarrow> distinct (map g (concat (map f us)))"
proof (induction us)
  case Nil
  show ?case by simp
next
  case (Cons a us)
  then have IH: "distinct (map g (concat (map f us)))" by simp
  from Cons.prems have a: "distinct (map g (f a))" "\<forall>x \<in> set (f a). fst (g x) = a"
    and rest: "\<forall>s \<in> set us. \<forall>x \<in> set (f s). fst (g x) = s" and "a \<notin> set us"
    by simp_all
  have "g ` set (f a) \<inter> g ` set (concat (map f us)) = {}"
  proof (rule ccontr)
    assume "g ` set (f a) \<inter> g ` set (concat (map f us)) \<noteq> {}"
    then obtain z where "z \<in> g ` set (f a)" and "z \<in> g ` set (concat (map f us))"
      by blast
    then obtain x y where x: "x \<in> set (f a)" and y: "y \<in> set (concat (map f us))" and "g x = g y"
      by (metis imageE)
    from y obtain s where "s \<in> set us" "y \<in> set (f s)" by auto
    with rest have "fst (g y) = s" by simp
    moreover from a x have "fst (g x) = a" by simp
    ultimately show False using \<open>g x = g y\<close> \<open>s \<in> set us\<close> \<open>a \<notin> set us\<close> by simp
  qed
  with IH a show ?case by simp
qed

lemma distinct_rm_pair_ranked_recommendation:
  assumes "distinct (map (\<lambda>p. (spark_user_id p, recording_id p)) R)"
  shows "distinct (map rm_pair (ranked_recommendation R))"
  unfolding ranked_recommendation_def
proof (rule distinct_concat_blocks)
  show "distinct (remdups (map spark_user_id R))" by simp
  show "\<forall>s\<in>set (remdups (map spark_user_id R)).
       distinct (map rm_pair (row_number 1 (order_by_prediction_desc (partition_by s R))))"
    using assms
    by (simp add: map_rm_pair_row_number distinct_map_order_by_prediction_desc partition_by_def
        distinct_map_filter)
  show "\<forall>s\<in>set (remdups (map spark_user_id R)).
       \<forall>x\<in>set (row_number 1 (order_by_prediction_desc (partition_by s R))). fst (rm_pair x) = s"
    by (auto simp: rm_pair_def dest: block_user)
qed

lemma length_filter_key_le1:
  "distinct (map f xs) \<Longrightarrow> length (filter (\<lambda>x. f x = k) xs) \<le> 1"
proof (induction xs)
  case Nil
  show ?case by simp
next
  case (Cons x xs)
  show ?case
  proof (cases "f x = k")
    case True
    with Cons.prems have "k \<notin> f ` set xs" by simp
    then have "filter (\<lambda>x. f x = k) xs = []"
      by (auto simp: filter_empty_conv)
    with True show ?thesis by simp
  next
    case False
    with Cons show ?thesis by simp
  qed
qed

lemma length_le1_cases: "length xs \<le> 1 \<Longrightarrow> xs = [] \<or> (\<exists>x. xs = [x])"
  by (cases xs) auto

lemma concat_map_Nil: "concat (map (\<lambda>x. []) xs) = []"
  by (induction xs) simp_all

lemma length_joined_single_le1:
  assumes r: "distinct (map r_recording_id (recording S))"
    and u: "distinct (map u_spark_user_id (user S))"
    and d: "distinct (map (\<lambda>d. (rd_user_id d, rd_recording_mbid d)) (recording_discovery S))"
  shows "length (joined S limit [rm]) \<le> 1"
proof -
  have dm: "length (discovery_matches S uid mbid) = 1" for uid mbid
  proof -
    have "length (filter (\<lambda>d. rd_user_id d = uid \<and> rd_recording_mbid d = mbid)
                    (recording_discovery S)) \<le> 1"
      using length_filter_key_le1 [OF d, of "(uid, mbid)"] by simp
    then show ?thesis by (rule length_discovery_matches)
  qed
  let ?rs = "filter (\<lambda>r. r_recording_id r = rm_recording_id rm) (recording S)"
  let ?us = "filter (\<lambda>u. u_spark_user_id u = rm_spark_user_id rm) (user S)"
  from length_filter_key_le1 [OF r, of "rm_recording_id rm"]
  have rs: "?rs = [] \<or> (\<exists>x. ?rs = [x])" by (rule length_le1_cases)
  from length_filter_key_le1 [OF u, of "rm_spark_user_id rm"]
  have us: "?us = [] \<or> (\<exists>y. ?us = [y])" by (rule length_le1_cases)
  show ?thesis
  proof (cases "?rs = [] \<or> ?us = []")
    case True
    then show ?thesis by (auto simp: joined_single concat_map_Nil)
  next
    case False
    with rs us obtain x y where "?rs = [x]" and "?us = [y]" by blast
    then show ?thesis by (simp add: joined_single dm)
  qed
qed

lemma distinct_joined_mbid:
  assumes r: "distinct (map r_recording_id (recording S))"
    and m: "distinct (map r_recording_mbid (recording S))"
    and u: "distinct (map u_spark_user_id (user S))"
    and i: "distinct (map u_user_id (user S))"
    and d: "distinct (map (\<lambda>d. (rd_user_id d, rd_recording_mbid d)) (recording_discovery S))"
    and p: "distinct (map rm_pair rms)"
  shows "distinct (map joined_mbid (filter (\<lambda>j. joined_user_id j = uid) (joined S limit rms)))"
  using p
proof (induction rms)
  case Nil
  show ?case by (simp add: joined_Nil)
next
  case (Cons rm rms)
  let ?A = "filter (\<lambda>j. joined_user_id j = uid) (joined S limit [rm])"
  let ?B = "filter (\<lambda>j. joined_user_id j = uid) (joined S limit rms)"
  from Cons have B: "distinct (map joined_mbid ?B)" by simp
  have "length ?A \<le> 1"
    using length_filter_le length_joined_single_le1 [OF r u d] by (rule order_trans)
  then have "?A = [] \<or> (\<exists>x. ?A = [x])"
    by (rule length_le1_cases)
  then have A: "distinct (map joined_mbid ?A)"
    by auto
  have disj: "joined_mbid ` set ?A \<inter> joined_mbid ` set ?B = {}"
  proof (rule ccontr)
    assume "joined_mbid ` set ?A \<inter> joined_mbid ` set ?B \<noteq> {}"
    then obtain z where "z \<in> joined_mbid ` set ?A" and "z \<in> joined_mbid ` set ?B"
      by blast
    then obtain a b where "a \<in> set ?A" and "b \<in> set ?B"
      and ab: "joined_mbid a = joined_mbid b"
      by (elim imageE) simp
    then have a: "a \<in> set (joined S limit [rm])" "joined_user_id a = uid"
      and b: "b \<in> set (joined S limit rms)" "joined_user_id b = uid"
      by simp_all
    from joined_single_from [OF a(1)] obtain ra ua da where a': "a = (rm, ra, ua, da)"
      and ra: "ra \<in> set (recording S)" "r_recording_id ra = rm_recording_id rm"
      and ua: "ua \<in> set (user S)" "u_spark_user_id ua = rm_spark_user_id rm"
      by blast
    from joined_from [OF b(1)] obtain rmb rb ub db where b': "b = (rmb, rb, ub, db)"
      and rmb: "rmb \<in> set rms"
      and rb: "rb \<in> set (recording S)" "r_recording_id rb = rm_recording_id rmb"
      and ub: "ub \<in> set (user S)" "u_spark_user_id ub = rm_spark_user_id rmb"
      by blast
    from ab a' b' have mb: "r_recording_mbid ra = r_recording_mbid rb"
      by (simp add: joined_mbid_def)
    from m have "inj_on r_recording_mbid (set (recording S))"
      by (simp add: distinct_map)
    from this mb ra(1) rb(1) have "ra = rb"
      by (rule inj_onD)
    from a(2) b(2) a' b' have ui: "u_user_id ua = u_user_id ub"
      by (simp add: joined_user_id_def)
    from i have "inj_on u_user_id (set (user S))"
      by (simp add: distinct_map)
    from this ui ua(1) ub(1) have "ua = ub"
      by (rule inj_onD)
    with \<open>ra = rb\<close> have "rm_pair rm = rm_pair rmb"
      using ra(2) rb(2) ua(2) ub(2) by (simp add: rm_pair_def)
    moreover from Cons.prems have "rm_pair rm \<notin> rm_pair ` set rms" by simp
    ultimately show False using rmb by blast
  qed
  from A B disj show ?case
    by (simp add: joined_Cons [of S limit rm rms])
qed

lemma map_recording_mbid_collect_list:
  "map recording_mbid (collect_list S uid js)
     = map joined_mbid (filter (\<lambda>j. joined_user_id j = uid) js)"
  by (simp add: collect_list_def struct_def joined_mbid_def split_beta)

text \<open>
  Claim C4, amended. When the predictions hold each (user, recording) pair once, the view
  \<open>recording\<close> has one row per recording id and per mbid, the view \<open>user\<close> one row per
  spark user id and per user id, and \<open>recording_discovery\<close> one row per (user, mbid), no mbid
  occurs twice in a list returned by \<open>process_recommendations\<close>.
\<close>

theorem ranked_list_mbids_unique:
  assumes "distinct (map (\<lambda>p. (spark_user_id p, recording_id p)) recommendation_df)"
    and "distinct (map r_recording_id (recording S))"
    and "distinct (map r_recording_mbid (recording S))"
    and "distinct (map u_spark_user_id (user S))"
    and "distinct (map u_user_id (user S))"
    and "distinct (map (\<lambda>d. (rd_user_id d, rd_recording_mbid d)) (recording_discovery S))"
    and "row \<in> set (process_recommendations S recommendation_df limit)"
  shows "distinct (map recording_mbid (recs row))"
proof -
  from assms(7) obtain uid where
    "recs row = array_sort score_cmp
                  (collect_list S uid (joined S limit (ranked_recommendation recommendation_df)))"
    by (auto simp: process_recommendations_joined group_by_user_id_def)
  then show ?thesis
    by (simp add: distinct_map_array_sort map_recording_mbid_collect_list
        distinct_joined_mbid [OF assms(2-6) distinct_rm_pair_ranked_recommendation [OF assms(1)]])
qed

text \<open>
  Claim C1 as stated fails: a user with two predictions and limit 2, one of whose recordings
  has no row in the view \<open>recording\<close>, gets a list of length 1; the inner join drops the
  recording.
\<close>

theorem ranked_list_length_counterexample:
  "length (partition_by 1 example_unresolved_recommendation) = 2
   \<and> process_recommendations example_session example_unresolved_recommendation 2
        = [example_unresolved_row]
   \<and> length (recs example_unresolved_row)
        \<noteq> min (length (partition_by 1 example_unresolved_recommendation)) (nat 2)"
  by code_simp

text \<open>
  Claim C4 as stated fails: with a view \<open>recording\<close> that gives two recording ids the same
  mbid, a user predicted for both gets that mbid twice.
\<close>

theorem ranked_list_mbids_counterexample:
  "process_recommendations example_shared_mbid_session example_two_recommendation 2
        = [example_shared_mbid_row]
   \<and> \<not> distinct (map recording_mbid (recs example_shared_mbid_row))"
  by code_simp

theorem ranked_list_length_min_witness:
  "filter (\<lambda>u. u_spark_user_id u = 1) (user example_session)
        = [\<lparr>u_spark_user_id = 1, u_user_id = 10\<rparr>]
   \<and> length (filter (\<lambda>p. spark_user_id p = 1) example_recommendation) = 3
   \<and> 0 < min (3::nat) (nat 2)
   \<and> (\<exists>ranked_list. filter (\<lambda>row. user_id row = 10)
                              (process_recommendations example_session example_recommendation 2)
                            = [\<lparr>user_id = 10, recs = ranked_list\<rparr>]
                          \<and> length ranked_list = 2)"
proof -
  have 1: "filter (\<lambda>u. u_spark_user_id u = 1) (user example_session)
        = [\<lparr>u_spark_user_id = 1, u_user_id = 10\<rparr>]"
    by (simp add: example_session_def)
  have 2: "u_user_id \<lparr>u_spark_user_id = 1, u_user_id = 10\<rparr> = 10"
    by simp
  have 3: "\<forall>u \<in> set (user example_session). u_user_id u = 10 \<longrightarrow> u_spark_user_id u = 1"
    by (simp add: example_session_def)
  have 4: "\<forall>p \<in> set example_recommendation. spark_user_id p = 1 \<longrightarrow>
           length (filter (\<lambda>r. r_recording_id r = recording_id p) (recording example_session)) = 1"
    by (simp add: example_session_def example_recommendation_def)
  have 5: "\<forall>mbid. length (filter (\<lambda>d. rd_user_id d = 10 \<and> rd_recording_mbid d = mbid)
                              (recording_discovery example_session)) \<le> 1"
    by (simp add: example_session_def)
  have 6: "3 = length (filter (\<lambda>p. spark_user_id p = 1) example_recommendation)"
    by (simp add: example_recommendation_def)
  have 7: "0 < min (3::nat) (nat 2)" "min (3::nat) (nat 2) = 2"
    by simp_all
  from ranked_list_length_min [OF 1 2 3 4 5 6, of 2] 7
  have "\<exists>ranked_list. filter (\<lambda>row. user_id row = 10)
                              (process_recommendations example_session example_recommendation 2)
                            = [\<lparr>user_id = 10, recs = ranked_list\<rparr>]
                          \<and> length ranked_list = 2"
    by simp
  with 1 6 7 show ?thesis by simp
qed

theorem ranked_list_mbids_unique_witness:
  "distinct (map (\<lambda>p. (spark_user_id p, recording_id p)) example_recommendation)
   \<and> distinct (map r_recording_id (recording example_session))
   \<and> distinct (map r_recording_mbid (recording example_session))
   \<and> distinct (map u_spark_user_id (user example_session))
   \<and> distinct (map u_user_id (user example_session))
   \<and> distinct (map (\<lambda>d. (rd_user_id d, rd_recording_mbid d)) (recording_discovery example_session))
   \<and> example_recs_row \<in> set (process_recommendations example_session example_recommendation 2)
   \<and> distinct (map recording_mbid (recs example_recs_row))"
proof -
  have 1: "distinct (map (\<lambda>p. (spark_user_id p, recording_id p)) example_recommendation)"
    by (simp add: example_recommendation_def)
  have 2: "distinct (map r_recording_id (recording example_session))"
    and 3: "distinct (map r_recording_mbid (recording example_session))"
    and 4: "distinct (map u_spark_user_id (user example_session))"
    and 5: "distinct (map u_user_id (user example_session))"
    and 6: "distinct (map (\<lambda>d. (rd_user_id d, rd_recording_mbid d)) (recording_discovery example_session))"
    by (simp_all add: example_session_def)
  have 7: "example_recs_row \<in> set (process_recommendations example_session example_recommendation 2)"
    by (simp add: example_process_recommendations)
  from ranked_list_mbids_unique [OF 1 2 3 4 5 6 7] 1 2 3 4 5 6 7 show ?thesis
    by simp
qed

section \<open>The sources of a run are mappings\<close>

text \<open>
  \<open>GROUP BY user_id\<close> gives one row per user, so the dataframes that \<open>main\<close> hands to
  \<open>create_messages\<close> hold each user once, and in a run every user count is the number of
  distinct users of its source, as \<open>get_user_count\<close> computes it.
\<close>

lemma process_recommendations_one_row_per_user:
  "distinct (map user_id (process_recommendations S recommendation_df limit))"
  by (simp add: process_recommendations_def group_by_user_id_def o_def)

lemma get_user_count_process_recommendations:
  "get_user_count (process_recommendations S recommendation_df limit)
     = length (process_recommendations S recommendation_df limit)"
  by (simp add: get_user_count_def
      distinct_remdups_id [OF process_recommendations_one_row_per_user])

lemma user_counts_of_a_run:
  "last (create_messages format_2f mid html
           (process_recommendations S top_recommendation top_limit)
           (process_recommendations S sim_recommendation sim_limit)
           (process_recommendations S raw_recommendation raw_limit) au el)
     = MailMessage
         \<lparr>mm_type = ''cf_recommendations_recording_mail'',
          active_user_count = au,
          top_artist_user_count
            = get_user_count (process_recommendations S top_recommendation top_limit),
          similar_artist_user_count
            = get_user_count (process_recommendations S sim_recommendation sim_limit),
          raw_user_count
            = get_user_count (process_recommendations S raw_recommendation raw_limit),
          total_time = format_2f (el / 3600)\<rparr>"
  by (simp add: create_messages_shape get_user_count_process_recommendations)

end
